theory Spec2Isabelle
  imports Main "HOL-Library.AList"
begin

section \<open>The export service of the photos app (services/export/index.ts)\<close>

text \<open>
  A shallow embedding of the export service: the planner functions, the journal
  (\<^verbatim>\<open>export_status.json\<close>) operations, the live-photo writer, the collection remover,
  the trash path allocator and the scheduler. Asynchronous functions are modelled as
  functions on an explicit world state that return either the value or the thrown error.
\<close>

subsection \<open>JavaScript strings and numbers\<close>

text \<open>
  Strings are \<^typ>\<open>string\<close>. The integers of the data model (file id, collection id,
  updation time) are \<^typ>\<open>int\<close>; a template literal prints them in decimal
  (JavaScript prints integers of magnitude below \<open>10^21\<close> this way).
\<close>

definition digit_char :: "nat \<Rightarrow> char" where
  "digit_char d = char_of (48 + d)"

function string_of_nat :: "nat \<Rightarrow> string" where
  "string_of_nat n =
     (if n < 10 then [digit_char n]
      else string_of_nat (n div 10) @ [digit_char (n mod 10)])"
  by pat_completeness auto
termination
  by (relation "measure id") auto

declare string_of_nat.simps [simp del]

definition string_of_int :: "int \<Rightarrow> string" where
  "string_of_int i =
     (if i < 0 then CHR ''-'' # string_of_nat (nat (- i)) else string_of_nat (nat i))"

definition is_digit :: "char \<Rightarrow> bool" where
  "is_digit c = (48 \<le> (of_char c :: nat) \<and> (of_char c :: nat) \<le> 57)"

definition nat_of_digits :: "string \<Rightarrow> nat" where
  "nat_of_digits ds = foldl (\<lambda>a c. 10 * a + (of_char c - 48)) 0 ds"

text \<open>
  \<^verbatim>\<open>Number(s)\<close> on the strings the service meets: the empty string is \<open>0\<close>, an
  optionally signed run of decimal digits is that integer. \<open>None\<close> stands for
  \<^verbatim>\<open>NaN\<close> and for the other numeric literals (fractions, exponents, hexadecimal,
  surrounding white space), none of which a printed integer produces.
\<close>

definition js_Number :: "string \<Rightarrow> int option" where
  "js_Number s =
     (case s of
        [] \<Rightarrow> Some 0
      | c # cs \<Rightarrow>
          if c = CHR ''-'' \<and> cs \<noteq> [] \<and> list_all is_digit cs then Some (- int (nat_of_digits cs))
          else if c = CHR ''+'' \<and> cs \<noteq> [] \<and> list_all is_digit cs then Some (int (nat_of_digits cs))
          else if list_all is_digit s then Some (int (nat_of_digits s))
          else None)"

text \<open>\<^verbatim>\<open>s.split(sep)\<close> for a one-character separator.\<close>

fun split_on :: "char \<Rightarrow> string \<Rightarrow> string list" where
  "split_on sep [] = [[]]"
| "split_on sep (c # cs) =
     (if c = sep then [] # split_on sep cs
      else (case split_on sep cs of
              [] \<Rightarrow> [[c]]
            | p # ps \<Rightarrow> (c # p) # ps))"

text \<open>\<^verbatim>\<open>xs[i]\<close>: \<^verbatim>\<open>undefined\<close> (here \<open>None\<close>) out of range.\<close>

definition js_index :: "'a list \<Rightarrow> nat \<Rightarrow> 'a option" where
  "js_index xs i = (if i < length xs then Some (xs ! i) else None)"

subsection \<open>Files and their UIDs\<close>

datatype FILE_TYPE = IMAGE | VIDEO | LIVE_PHOTO

record Metadata =
  title :: string
  creationTime :: int
  modificationTime :: "int option"
  fileType :: FILE_TYPE

text \<open>The field \<^verbatim>\<open>id\<close> of a file is \<open>file_id\<close> here, that of a collection \<open>coll_id\<close>.\<close>

record EnteFile =
  file_id :: int
  collectionID :: int
  updationTime :: int
  ownerID :: int
  metadata :: Metadata
  caption :: "string option"

definition getExportRecordFileUID :: "EnteFile \<Rightarrow> string" where
  "getExportRecordFileUID file =
     string_of_int (file_id file) @ ''_'' @ string_of_int (collectionID file) @ ''_''
       @ string_of_int (updationTime file)"

text \<open>
  \<^verbatim>\<open>Number(fileUID.split("_")[1])\<close>; \<^verbatim>\<open>Number(undefined)\<close> is \<^verbatim>\<open>NaN\<close>.
\<close>

definition getCollectionIDFromFileUID :: "string \<Rightarrow> int option" where
  "getCollectionIDFromFileUID fileUID =
     (case js_index (split_on CHR ''_'' fileUID) 1 of
        None \<Rightarrow> None
      | Some s \<Rightarrow> js_Number s)"


subsection \<open>The journal record\<close>

datatype ExportStage =
    INIT | MIGRATION | STARTING | EXPORTING_FILES | TRASHING_DELETED_FILES
  | RENAMING_COLLECTION_FOLDERS | TRASHING_DELETED_COLLECTIONS | FINISHED

text \<open>
  The two name objects are association lists in the order of their keys; the keys of
  \<^verbatim>\<open>collectionExportNames\<close> are collection ids (the object stores them printed,
  the code reads them back with \<^verbatim>\<open>Number\<close>). A JavaScript object holds a key once.
  The code tests both objects for absence (\<^verbatim>\<open>!exportRecord?.fileExportNames\<close>), so
  an absent object is \<open>None\<close>.
\<close>

record ExportRecord =
  version :: int
  lastAttemptTimestamp :: "int option"
  stage :: ExportStage
  fileExportNames :: "(string \<times> string) list option"
  collectionExportNames :: "(int \<times> string) list option"

definition NULL_EXPORT_RECORD :: ExportRecord where
  "NULL_EXPORT_RECORD =
     \<lparr>version = 3, lastAttemptTimestamp = None, stage = INIT,
      fileExportNames = Some [], collectionExportNames = Some []\<rparr>"

record Collection =
  coll_id :: int
  owner_id :: int
  name :: string

subsection \<open>The planner\<close>

text \<open>
  The regular expression \<^verbatim>\<open>/\(\d+\)$/\<close>: an opening parenthesis, one or more decimal
  digits and a closing parenthesis at the end of the string. The digits before the last
  character fix where the match starts, so there is at most one match;
  \<open>match_numbered_suffix\<close> returns the text before it.
\<close>

definition match_numbered_suffix :: "string \<Rightarrow> string option" where
  "match_numbered_suffix s =
     (case rev s of
        [] \<Rightarrow> None
      | c # r1 \<Rightarrow>
          if c = CHR '')'' \<and> takeWhile is_digit r1 \<noteq> [] then
            (case dropWhile is_digit r1 of
               [] \<Rightarrow> None
             | d # pre \<Rightarrow> if d = CHR ''('' then Some (rev pre) else None)
          else None)"

text \<open>\<^verbatim>\<open>s.replace(/\(\d+\)$/, "")\<close>: the string itself when nothing matches.\<close>

definition replace_numbered_suffix :: "string \<Rightarrow> string" where
  "replace_numbered_suffix s = (case match_numbered_suffix s of None \<Rightarrow> s | Some pre \<Rightarrow> pre)"

text \<open>
  \<^verbatim>\<open>getCollectionUserFacingName\<close> (utils/collection) is not part of these sources; the
  planner takes it as the parameter \<open>getCollectionUserFacingName\<close>.
\<close>

definition getRenamedExportedCollections ::
  "(Collection \<Rightarrow> string) \<Rightarrow> Collection list \<Rightarrow> ExportRecord \<Rightarrow> Collection list" where
  "getRenamedExportedCollections getCollectionUserFacingName collections exportRecord =
     (case collectionExportNames exportRecord of
        None \<Rightarrow> []
      | Some collectionIDExportNameMap \<Rightarrow>
          filter (\<lambda>collection.
            (case map_of collectionIDExportNameMap (coll_id collection) of
               Some currentExportName \<Rightarrow>
                 (let collectionExportName = getCollectionUserFacingName collection in
                  if currentExportName = collectionExportName then False
                  else
                    (let hasNumberedSuffix = (match_numbered_suffix currentExportName \<noteq> None);
                         currentExportNameWithoutNumberedSuffix =
                           (if hasNumberedSuffix then replace_numbered_suffix currentExportName
                            else currentExportName)
                     in collectionExportName \<noteq> currentExportNameWithoutNumberedSuffix))
             | None \<Rightarrow> False)) collections)"

definition getDeletedExportedCollections :: "Collection list \<Rightarrow> ExportRecord \<Rightarrow> int list" where
  "getDeletedExportedCollections collections exportRecord =
     (case collectionExportNames exportRecord of
        None \<Rightarrow> []
      | Some names \<Rightarrow>
          (let presentCollections = set (map coll_id collections)
           in filter (\<lambda>collectionID. collectionID \<notin> presentCollections) (map fst names)))"

definition getUnExportedFiles :: "EnteFile list \<Rightarrow> ExportRecord \<Rightarrow> EnteFile list" where
  "getUnExportedFiles allFiles exportRecord =
     (case fileExportNames exportRecord of
        None \<Rightarrow> allFiles
      | Some names \<Rightarrow>
          (let exportedFiles = set (map fst names)
           in filter (\<lambda>file. getExportRecordFileUID file \<notin> exportedFiles) allFiles))"

definition getDeletedExportedFiles :: "EnteFile list \<Rightarrow> ExportRecord \<Rightarrow> string list" where
  "getDeletedExportedFiles allFiles exportRecord =
     (case fileExportNames exportRecord of
        None \<Rightarrow> []
      | Some names \<Rightarrow>
          (let presentFileUIDs = set (map getExportRecordFileUID allFiles)
           in filter (\<lambda>fileUID. fileUID \<notin> presentFileUIDs) (map fst names)))"

definition getCollectionExportedFiles :: "ExportRecord \<Rightarrow> int \<Rightarrow> string list" where
  "getCollectionExportedFiles exportRecord collectionID' =
     (case fileExportNames exportRecord of
        None \<Rightarrow> []
      | Some names \<Rightarrow>
          filter (\<lambda>fileUID.
            (case js_index (split_on CHR ''_'' fileUID) 1 of
               None \<Rightarrow> False
             | Some s \<Rightarrow> js_Number s = Some collectionID')) (map fst names))"

text \<open>
  The four work lists that \<^verbatim>\<open>runExport\<close> computes from one snapshot: the personal
  files and the non-empty personal collections (both produced by helpers outside these
  sources, \<^verbatim>\<open>getPersonalFiles\<close> and \<^verbatim>\<open>getNonEmptyPersonalCollections\<close>) and the
  journal record.
\<close>

record ExportPlan =
  renamedCollections :: "Collection list"
  removedFileUIDs :: "string list"
  filesToExport :: "EnteFile list"
  deletedExportedCollections :: "int list"

definition runExport_plan ::
  "(Collection \<Rightarrow> string) \<Rightarrow> EnteFile list \<Rightarrow> Collection list \<Rightarrow> ExportRecord \<Rightarrow> ExportPlan" where
  "runExport_plan getCollectionUserFacingName personalFiles nonEmptyPersonalCollections exportRecord =
     \<lparr>renamedCollections =
        getRenamedExportedCollections getCollectionUserFacingName
          nonEmptyPersonalCollections exportRecord,
      removedFileUIDs = getDeletedExportedFiles personalFiles exportRecord,
      filesToExport = getUnExportedFiles personalFiles exportRecord,
      deletedExportedCollections =
        getDeletedExportedCollections nonEmptyPersonalCollections exportRecord\<rparr>"

text \<open>The order the specification names for the files to export: by collection id, then file id.\<close>

definition by_collection_then_id :: "EnteFile \<Rightarrow> EnteFile \<Rightarrow> bool" where
  "by_collection_then_id f g =
     (collectionID f < collectionID g \<or> (collectionID f = collectionID g \<and> file_id f \<le> file_id g))"

text \<open>The keys of the journal's \<^verbatim>\<open>fileExportNames\<close>.\<close>

definition exportedFileUIDs :: "ExportRecord \<Rightarrow> string set" where
  "exportedFileUIDs exportRecord =
     (case fileExportNames exportRecord of None \<Rightarrow> {} | Some names \<Rightarrow> set (map fst names))"

definition sample_file :: "int \<Rightarrow> int \<Rightarrow> int \<Rightarrow> EnteFile" where
  "sample_file i c u =
     \<lparr>file_id = i, collectionID = c, updationTime = u, ownerID = 1,
      metadata = \<lparr>title = ''IMG.jpg'', creationTime = 0, modificationTime = None, fileType = IMAGE\<rparr>,
      caption = None\<rparr>"

subsection \<open>The platform: files, directories, injected failures\<close>

text \<open>
  The sidecar that \<^verbatim>\<open>getGoogleLikeMetadataFile\<close> writes beside every file. Times are
  microseconds in the metadata and whole seconds in the sidecar. The formatted dates and
  the coordinates (locale formatting, floating point) are left out.
\<close>

record GoogleLikeMetadata =
  g_title :: string
  g_caption :: "string option"
  g_creationTime :: int
  g_modificationTime :: int

definition getGoogleLikeMetadataFile :: "string \<Rightarrow> EnteFile \<Rightarrow> GoogleLikeMetadata" where
  "getGoogleLikeMetadataFile fileExportName file =
     \<lparr>g_title = fileExportName,
      g_caption = caption file,
      g_creationTime = creationTime (metadata file) div 1000000,
      g_modificationTime =
        (case modificationTime (metadata file) of
           None \<Rightarrow> creationTime (metadata file)
         | Some m \<Rightarrow> m) div 1000000\<rparr>"

text \<open>
  What a file on disk holds: the text \<^verbatim>\<open>JSON.stringify(record, null, 2)\<close> of a journal
  record (which \<^verbatim>\<open>JSON.parse\<close> reads back as that record), a text that
  \<^verbatim>\<open>JSON.parse\<close> rejects, a sidecar, or the bytes of a stream. Reading a sidecar or a
  stream as the journal is treated as a parse failure; texts that parse to something
  other than a journal record are outside the model.
\<close>

datatype content =
    RecordText ExportRecord
  | Unparseable
  | SidecarText GoogleLikeMetadata
  | StreamData "nat list"

datatype fs_op =
    SaveFileToDisk string
  | SaveStreamToDisk string
  | ReadTextFile string
  | DeleteFile string
  | DeleteFolder string

datatype error =
    EXPORT_FOLDER_DOES_NOT_EXIST
  | EXPORT_STOPPED
  | UPDATE_EXPORTED_RECORD_FAILED
  | EXPORT_RECORD_JSON_PARSING_FAILED
  | COLLECTION_NOT_EMPTY
  | TYPE_ERROR
  | PLATFORM_ERROR fs_op
  | DECODE_ERROR
  | SYNTAX_ERROR

text \<open>
  \<open>COLLECTION_NOT_EMPTY\<close> is \<^verbatim>\<open>new Error("collection is not empty, can't remove")\<close>,
  \<open>TYPE_ERROR\<close> what reading a property of \<^verbatim>\<open>undefined\<close> throws, \<open>PLATFORM_ERROR\<close>
  an error thrown by a filesystem primitive, \<open>DECODE_ERROR\<close> a failure of the live-photo
  decoder, \<open>SYNTAX_ERROR\<close> what \<^verbatim>\<open>JSON.parse\<close> throws. Comparing \<^verbatim>\<open>e.message\<close>
  with a \<^verbatim>\<open>CustomError\<close> is equality of errors.

  The world: the regular files with their contents, the directories, the primitive
  operations that fail when attempted (failure injection), the sleeps performed so far
  in milliseconds, and for each coming sleep the files that other processes write while
  the service sleeps.
\<close>

record world =
  files :: "(string \<times> content) list"
  dirs :: "string list"
  faults :: "fs_op list"
  slept :: "nat list"
  interference :: "(string \<times> content) list list"

type_synonym 'a io = "world \<Rightarrow> (error + 'a) \<times> world"

definition return_io :: "'a \<Rightarrow> 'a io" where
  "return_io x w = (Inr x, w)"

definition throw :: "error \<Rightarrow> 'a io" where
  "throw e w = (Inl e, w)"

definition bind_io :: "'a io \<Rightarrow> ('a \<Rightarrow> 'b io) \<Rightarrow> 'b io" where
  "bind_io m f w = (case m w of (Inl e, w') \<Rightarrow> (Inl e, w') | (Inr x, w') \<Rightarrow> f x w')"

definition catch_io :: "'a io \<Rightarrow> (error \<Rightarrow> 'a io) \<Rightarrow> 'a io" where
  "catch_io m h w = (case m w of (Inl e, w') \<Rightarrow> h e w' | (Inr x, w') \<Rightarrow> (Inr x, w'))"

text \<open>
  Modelled from the spec: the filesystem primitives of \<^verbatim>\<open>ensureElectron()\<close> are not
  part of these sources. \<open>exists(path)\<close> answers; \<open>save_file_to_disk\<close> replaces the
  file atomically; \<open>save_stream_to_disk\<close> "must not leave a partial file on failure";
  every operation but \<open>exists\<close> is fallible. An operation listed in \<open>faults\<close>
  throws and changes nothing. (The primitives that the functions below do not call are
  left out.)
\<close>

definition fs_exists :: "world \<Rightarrow> string \<Rightarrow> bool" where
  "fs_exists w path = (path \<in> set (dirs w) \<or> path \<in> set (map fst (files w)))"

definition saveFileToDisk :: "string \<Rightarrow> content \<Rightarrow> unit io" where
  "saveFileToDisk path text w =
     (if SaveFileToDisk path \<in> set (faults w) then (Inl (PLATFORM_ERROR (SaveFileToDisk path)), w)
      else (Inr (), w\<lparr>files := AList.update path text (files w)\<rparr>))"

definition saveStreamToDisk :: "string \<Rightarrow> nat list \<Rightarrow> unit io" where
  "saveStreamToDisk path stream w =
     (if SaveStreamToDisk path \<in> set (faults w) then (Inl (PLATFORM_ERROR (SaveStreamToDisk path)), w)
      else (Inr (), w\<lparr>files := AList.update path (StreamData stream) (files w)\<rparr>))"

definition readTextFile :: "string \<Rightarrow> content io" where
  "readTextFile path w =
     (if ReadTextFile path \<in> set (faults w) then (Inl (PLATFORM_ERROR (ReadTextFile path)), w)
      else (case map_of (files w) path of
              None \<Rightarrow> (Inl (PLATFORM_ERROR (ReadTextFile path)), w)
            | Some text \<Rightarrow> (Inr text, w)))"

definition deleteFile :: "string \<Rightarrow> unit io" where
  "deleteFile path w =
     (if DeleteFile path \<in> set (faults w) then (Inl (PLATFORM_ERROR (DeleteFile path)), w)
      else (Inr (), w\<lparr>files := filter (\<lambda>entry. fst entry \<noteq> path) (files w)\<rparr>))"

definition deleteFolder :: "string \<Rightarrow> unit io" where
  "deleteFolder path w =
     (if DeleteFolder path \<in> set (faults w) then (Inl (PLATFORM_ERROR (DeleteFolder path)), w)
      else (Inr (), w\<lparr>dirs := removeAll path (dirs w)\<rparr>))"

text \<open>
  Modelled from the spec: \<^verbatim>\<open>sleep\<close> (shared utils) is not part of these sources; the
  specification's "retry once after a 1-second delay" makes \<^verbatim>\<open>sleep(1000)\<close> a delay of
  that many milliseconds. The sleep is recorded, and the writes of other processes that
  fall into it reach the disk.
\<close>

definition sleep :: "nat \<Rightarrow> unit io" where
  "sleep ms w =
     (Inr (),
      w\<lparr>slept := slept w @ [ms],
        files := (case interference w of
                    [] \<Rightarrow> files w
                  | writes # _ \<Rightarrow> fold (\<lambda>entry. AList.update (fst entry) (snd entry)) writes (files w)),
        interference := tl (interference w)\<rparr>)"

subsection \<open>The journal\<close>

definition exportRecordFileName :: string where
  "exportRecordFileName = ''export_status.json''"

definition exportMetadataDirectoryName :: string where
  "exportMetadataDirectoryName = ''metadata''"

definition exportTrashDirectoryName :: string where
  "exportTrashDirectoryName = ''Trash''"

text \<open>\<^verbatim>\<open>exportFolder && (await this.exists(exportFolder))\<close>; an unset folder is the empty string.\<close>

definition exportFolderExists :: "world \<Rightarrow> string \<Rightarrow> bool" where
  "exportFolderExists w exportFolder = (exportFolder \<noteq> [] \<and> fs_exists w exportFolder)"

definition verifyExportFolderExists :: "string \<Rightarrow> unit io" where
  "verifyExportFolderExists exportFolder w =
     (if \<not> exportFolderExists w exportFolder then throw EXPORT_FOLDER_DOES_NOT_EXIST w
      else return_io () w)"

definition createEmptyExportRecord :: "string \<Rightarrow> ExportRecord io" where
  "createEmptyExportRecord exportRecordJSONPath =
     bind_io (saveFileToDisk exportRecordJSONPath (RecordText NULL_EXPORT_RECORD))
       (\<lambda>_. return_io NULL_EXPORT_RECORD)"

text \<open>\<^verbatim>\<open>JSON.parse(recordFile)\<close> inside its own \<^verbatim>\<open>try\<close>.\<close>

definition parseExportRecord :: "content \<Rightarrow> ExportRecord io" where
  "parseExportRecord recordFile =
     (case recordFile of
        RecordText exportRecord \<Rightarrow> return_io exportRecord
      | _ \<Rightarrow> throw EXPORT_RECORD_JSON_PARSING_FAILED)"

text \<open>The \<^verbatim>\<open>try\<close> block of \<^verbatim>\<open>getExportRecord\<close>: one attempt to load the journal.\<close>

definition getExportRecord_try :: "string \<Rightarrow> ExportRecord io" where
  "getExportRecord_try folder =
     bind_io (verifyExportFolderExists folder) (\<lambda>_.
       (let exportRecordJSONPath = folder @ ''/'' @ exportRecordFileName
        in (\<lambda>w. if \<not> fs_exists w exportRecordJSONPath
                 then createEmptyExportRecord exportRecordJSONPath w
                 else bind_io (readTextFile exportRecordJSONPath) parseExportRecord w)))"

text \<open>
  \<^verbatim>\<open>getExportRecord(folder, retry = true)\<close>: the \<^verbatim>\<open>catch\<close> block sleeps a second and
  calls \<^verbatim>\<open>getExportRecord(folder, false)\<close> when the error is the parsing failure and
  \<^verbatim>\<open>retry\<close> is set; every other error is thrown on.
\<close>

function getExportRecord :: "string \<Rightarrow> bool \<Rightarrow> ExportRecord io" where
  "getExportRecord folder retry w =
     (case getExportRecord_try folder w of
        (Inr exportRecord, w1) \<Rightarrow> (Inr exportRecord, w1)
      | (Inl e, w1) \<Rightarrow>
          if e = EXPORT_RECORD_JSON_PARSING_FAILED \<and> retry
          then getExportRecord folder False (snd (sleep 1000 w1))
          else (Inl e, w1))"
  by pat_completeness auto
termination
  by (relation "measure (\<lambda>(folder, retry, w). if retry then 1 else 0)") auto

declare getExportRecord.simps [simp del]

text \<open>
  \<^verbatim>\<open>Partial<ExportRecord>\<close>: \<open>None\<close> is a field that the object does not have. The
  last attempt's timestamp may be present and \<^verbatim>\<open>null\<close>.
\<close>

record PartialExportRecord =
  p_version :: "int option"
  p_lastAttemptTimestamp :: "int option option"
  p_stage :: "ExportStage option"
  p_fileExportNames :: "(string \<times> string) list option"
  p_collectionExportNames :: "(int \<times> string) list option"

text \<open>The object spread \<^verbatim>\<open>{ ...exportRecord, ...newData }\<close>.\<close>

definition spread :: "ExportRecord \<Rightarrow> PartialExportRecord \<Rightarrow> ExportRecord" where
  "spread exportRecord newData =
     \<lparr>version = (case p_version newData of None \<Rightarrow> version exportRecord | Some v \<Rightarrow> v),
      lastAttemptTimestamp =
        (case p_lastAttemptTimestamp newData of
           None \<Rightarrow> lastAttemptTimestamp exportRecord
         | Some t \<Rightarrow> t),
      stage = (case p_stage newData of None \<Rightarrow> stage exportRecord | Some s \<Rightarrow> s),
      fileExportNames =
        (case p_fileExportNames newData of
           None \<Rightarrow> fileExportNames exportRecord
         | Some names \<Rightarrow> Some names),
      collectionExportNames =
        (case p_collectionExportNames newData of
           None \<Rightarrow> collectionExportNames exportRecord
         | Some names \<Rightarrow> Some names)\<rparr>"

text \<open>A whole record passed where a partial one is expected: the fields it has.\<close>

definition whole :: "ExportRecord \<Rightarrow> PartialExportRecord" where
  "whole exportRecord =
     \<lparr>p_version = Some (version exportRecord),
      p_lastAttemptTimestamp = Some (lastAttemptTimestamp exportRecord),
      p_stage = Some (stage exportRecord),
      p_fileExportNames = fileExportNames exportRecord,
      p_collectionExportNames = collectionExportNames exportRecord\<rparr>"

definition updateExportRecordHelper :: "string \<Rightarrow> PartialExportRecord \<Rightarrow> ExportRecord io" where
  "updateExportRecordHelper folder newData =
     catch_io
       (bind_io (getExportRecord folder True) (\<lambda>exportRecord.
          (let newRecord = spread exportRecord newData
           in bind_io (saveFileToDisk (folder @ ''/'' @ exportRecordFileName) (RecordText newRecord))
                (\<lambda>_. return_io newRecord))))
       (\<lambda>e. if e = EXPORT_FOLDER_DOES_NOT_EXIST then throw e
             else throw UPDATE_EXPORTED_RECORD_FAILED)"

text \<open>
  Modelled from the spec: the queue of the record updater (\<^verbatim>\<open>QueueProcessor\<close>, shared
  utils) is not part of these sources. "All mutations traverse a single FIFO queue":
  \<^verbatim>\<open>updateExportRecord\<close> puts the helper on the queue and awaits it. The model runs
  one request at a time, so the queued helper runs at once.
\<close>

definition updateExportRecord :: "string \<Rightarrow> PartialExportRecord \<Rightarrow> ExportRecord io" where
  "updateExportRecord folder newData = updateExportRecordHelper folder newData"

text \<open>
  The four record operations. Their \<^verbatim>\<open>catch\<close> blocks only log and throw the error on,
  and are left out. \<^verbatim>\<open>Object.entries\<close> of an absent object throws.
\<close>

definition addFileExportedRecord :: "string \<Rightarrow> string \<Rightarrow> string \<Rightarrow> unit io" where
  "addFileExportedRecord folder fileUID fileExportName =
     bind_io (getExportRecord folder True) (\<lambda>exportRecord.
       (let names = (case fileExportNames exportRecord of None \<Rightarrow> [] | Some names \<Rightarrow> names);
            exportRecord' =
              exportRecord\<lparr>fileExportNames := Some (AList.update fileUID fileExportName names)\<rparr>
        in bind_io (updateExportRecord folder (whole exportRecord')) (\<lambda>_. return_io ())))"

text \<open>
  The collection's name may be \<^verbatim>\<open>undefined\<close> (the result of \<^verbatim>\<open>Map.get\<close>), here
  \<open>None\<close>; \<^verbatim>\<open>JSON.stringify\<close> drops a property whose value is \<^verbatim>\<open>undefined\<close>.
\<close>

definition addCollectionExportedRecord :: "string \<Rightarrow> int \<Rightarrow> string option \<Rightarrow> unit io" where
  "addCollectionExportedRecord folder collectionID' collectionExportName =
     bind_io (getExportRecord folder True) (\<lambda>exportRecord.
       (let names = (case collectionExportNames exportRecord of None \<Rightarrow> [] | Some names \<Rightarrow> names);
            exportRecord' =
              exportRecord\<lparr>collectionExportNames :=
                Some (case collectionExportName of
                        Some n \<Rightarrow> AList.update collectionID' n names
                      | None \<Rightarrow> filter (\<lambda>entry. fst entry \<noteq> collectionID') names)\<rparr>
        in bind_io (updateExportRecord folder (whole exportRecord')) (\<lambda>_. return_io ())))"

definition removeCollectionExportedRecord :: "string \<Rightarrow> int \<Rightarrow> unit io" where
  "removeCollectionExportedRecord folder collectionID' =
     bind_io (getExportRecord folder True) (\<lambda>exportRecord.
       (case collectionExportNames exportRecord of
          None \<Rightarrow> throw TYPE_ERROR
        | Some names \<Rightarrow>
            (let exportRecord' =
                   exportRecord\<lparr>collectionExportNames :=
                     Some (filter (\<lambda>entry. fst entry \<noteq> collectionID') names)\<rparr>
             in bind_io (updateExportRecord folder (whole exportRecord')) (\<lambda>_. return_io ()))))"

definition removeFileExportedRecord :: "string \<Rightarrow> string \<Rightarrow> unit io" where
  "removeFileExportedRecord folder fileUID =
     bind_io (getExportRecord folder True) (\<lambda>exportRecord.
       (case fileExportNames exportRecord of
          None \<Rightarrow> throw TYPE_ERROR
        | Some names \<Rightarrow>
            (let exportRecord' =
                   exportRecord\<lparr>fileExportNames :=
                     Some (filter (\<lambda>entry. fst entry \<noteq> fileUID) names)\<rparr>
             in bind_io (updateExportRecord folder (whole exportRecord')) (\<lambda>_. return_io ()))))"

text \<open>The journal record that the file of the journal holds, if it holds one.\<close>

definition journal :: "world \<Rightarrow> string \<Rightarrow> ExportRecord option" where
  "journal w folder =
     (case map_of (files w) (folder @ ''/'' @ exportRecordFileName) of
        Some (RecordText exportRecord) \<Rightarrow> Some exportRecord
      | _ \<Rightarrow> None)"

subsection \<open>Writing a live photo\<close>

definition getMetadataFolderExportPath :: "string \<Rightarrow> string" where
  "getMetadataFolderExportPath collectionExportPath =
     collectionExportPath @ ''/'' @ exportMetadataDirectoryName"

definition getFileMetadataExportPath :: "string \<Rightarrow> string \<Rightarrow> string" where
  "getFileMetadataExportPath collectionExportPath fileExportName =
     collectionExportPath @ ''/'' @ exportMetadataDirectoryName @ ''/'' @ fileExportName @ ''.json''"

definition saveMetadataFile :: "string \<Rightarrow> string \<Rightarrow> EnteFile \<Rightarrow> unit io" where
  "saveMetadataFile collectionExportPath fileExportName file =
     saveFileToDisk (getFileMetadataExportPath collectionExportPath fileExportName)
       (SidecarText (getGoogleLikeMetadataFile fileExportName file))"

text \<open>
  \<^verbatim>\<open>JSON.stringify\<close> of a string: quotes around it, the quote and the backslash
  escaped, control characters escaped (the short forms where JSON has them, \<open>\u00XX\<close>
  otherwise).
\<close>

definition hex_digit :: "nat \<Rightarrow> char" where
  "hex_digit d = (if d < 10 then char_of (48 + d) else char_of (87 + d))"

definition json_escape_char :: "char \<Rightarrow> string" where
  "json_escape_char c =
     (if c = CHR ''\"'' then [CHR 0x5C, CHR ''\"'']
      else if c = CHR 0x5C then [CHR 0x5C, CHR 0x5C]
      else if c = CHR 0x08 then [CHR 0x5C, CHR ''b'']
      else if c = CHR 0x0C then [CHR 0x5C, CHR ''f'']
      else if c = CHR 0x0A then [CHR 0x5C, CHR ''n'']
      else if c = CHR 0x0D then [CHR 0x5C, CHR ''r'']
      else if c = CHR 0x09 then [CHR 0x5C, CHR ''t'']
      else if (of_char c :: nat) < 32
        then [CHR 0x5C, CHR ''u'', CHR ''0'', CHR ''0'',
              hex_digit ((of_char c :: nat) div 16), hex_digit ((of_char c :: nat) mod 16)]
      else [c])"

definition json_quote :: "string \<Rightarrow> string" where
  "json_quote s = [CHR ''\"''] @ concat (map json_escape_char s) @ [CHR ''\"'']"

text \<open>\<^verbatim>\<open>JSON.stringify({ image: imageExportName, video: videoExportName })\<close>.\<close>

definition getLivePhotoExportName :: "string \<Rightarrow> string \<Rightarrow> string" where
  "getLivePhotoExportName imageExportName videoExportName =
     [CHR 0x7B] @ json_quote ''image'' @ '':'' @ json_quote imageExportName @ '',''
       @ json_quote ''video'' @ '':'' @ json_quote videoExportName @ [CHR 0x7D]"

text \<open>What \<^verbatim>\<open>decodeLivePhoto\<close> returns.\<close>

record LivePhoto =
  imageNameTitle :: string
  image :: "nat list"
  videoNameTitle :: string
  video :: "nat list"

text \<open>
  \<^verbatim>\<open>exportLivePhoto\<close>. Two collaborators are outside these sources and are parameters:
  \<open>safeFileName\<close> (utils/native-fs), which only looks at the disk, and the outcome
  \<open>decoded\<close> of reading the stream into a blob and decoding it
  (\<^verbatim>\<open>decodeLivePhoto\<close>), which happens before anything is written.
\<close>

definition exportLivePhoto ::
  "(world \<Rightarrow> string \<Rightarrow> string \<Rightarrow> string) \<Rightarrow> string \<Rightarrow> string \<Rightarrow> string
     \<Rightarrow> error + LivePhoto \<Rightarrow> EnteFile \<Rightarrow> unit io" where
  "exportLivePhoto safeFileName exportDir fileUID collectionExportPath decoded file w =
     (case decoded of
        Inl e \<Rightarrow> throw e w
      | Inr livePhoto \<Rightarrow>
          (let imageExportName = safeFileName w collectionExportPath (imageNameTitle livePhoto);
               videoExportName = safeFileName w collectionExportPath (videoNameTitle livePhoto);
               livePhotoExportName = getLivePhotoExportName imageExportName videoExportName
           in bind_io (addFileExportedRecord exportDir fileUID livePhotoExportName) (\<lambda>_.
                catch_io
                  (bind_io (saveMetadataFile collectionExportPath imageExportName file) (\<lambda>_.
                   bind_io (saveStreamToDisk (collectionExportPath @ ''/'' @ imageExportName)
                             (image livePhoto)) (\<lambda>_.
                   bind_io (saveMetadataFile collectionExportPath videoExportName file) (\<lambda>_.
                   catch_io
                     (saveStreamToDisk (collectionExportPath @ ''/'' @ videoExportName)
                        (video livePhoto))
                     (\<lambda>e. bind_io (deleteFile (collectionExportPath @ ''/'' @ imageExportName))
                             (\<lambda>_. throw e))))))
                  (\<lambda>e. bind_io (removeFileExportedRecord exportDir fileUID) (\<lambda>_. throw e))) w))"

subsection \<open>Removing deleted collections\<close>

text \<open>
  The body of the inner \<^verbatim>\<open>try\<close> of \<^verbatim>\<open>collectionRemover\<close> for one collection id.
  \<open>exportRecord\<close> and \<open>collectionIDPathMap\<close> are read once, before the loop. A name
  that the map does not have prints as \<^verbatim>\<open>undefined\<close> in the path.
\<close>

definition collectionRemover_try ::
  "ExportRecord \<Rightarrow> (int \<times> string) list \<Rightarrow> string \<Rightarrow> bool \<Rightarrow> int \<Rightarrow> unit io" where
  "collectionRemover_try exportRecord collectionIDPathMap exportFolder isCanceled collectionID' =
     (if isCanceled then throw EXPORT_STOPPED
      else
        bind_io (verifyExportFolderExists exportFolder) (\<lambda>_.
          (let collectionExportName = map_of collectionIDPathMap collectionID';
               collectionExportedFiles = getCollectionExportedFiles exportRecord collectionID'
           in if length collectionExportedFiles > 0 then throw COLLECTION_NOT_EMPTY
              else
                (let collectionExportPath =
                       exportFolder @ ''/'' @
                         (case collectionExportName of None \<Rightarrow> ''undefined'' | Some n \<Rightarrow> n)
                 in bind_io (removeCollectionExportedRecord exportFolder collectionID') (\<lambda>_.
                      catch_io
                        (bind_io (deleteFolder (getMetadataFolderExportPath collectionExportPath))
                           (\<lambda>_. deleteFolder collectionExportPath))
                        (\<lambda>e. bind_io
                                (addCollectionExportedRecord exportFolder collectionID'
                                   collectionExportName)
                                (\<lambda>_. throw e)))))))"

text \<open>
  The \<^verbatim>\<open>for\<close> loop: the \<^verbatim>\<open>catch\<close> of each round logs the error and throws it on
  only when it is one of the three kinds it names.
\<close>

fun collectionRemover_loop ::
  "ExportRecord \<Rightarrow> (int \<times> string) list \<Rightarrow> string \<Rightarrow> bool \<Rightarrow> int list \<Rightarrow> unit io" where
  "collectionRemover_loop exportRecord collectionIDPathMap exportFolder isCanceled [] =
     return_io ()"
| "collectionRemover_loop exportRecord collectionIDPathMap exportFolder isCanceled
     (collectionID' # rest) =
     bind_io
       (catch_io
          (collectionRemover_try exportRecord collectionIDPathMap exportFolder isCanceled
             collectionID')
          (\<lambda>e. if e = UPDATE_EXPORTED_RECORD_FAILED \<or> e = EXPORT_FOLDER_DOES_NOT_EXIST
                      \<or> e = EXPORT_STOPPED
                 then throw e else return_io ()))
       (\<lambda>_. collectionRemover_loop exportRecord collectionIDPathMap exportFolder isCanceled rest)"

definition collectionRemover :: "int list \<Rightarrow> string \<Rightarrow> bool \<Rightarrow> unit io" where
  "collectionRemover deletedExportedCollectionIDs exportFolder isCanceled =
     bind_io (getExportRecord exportFolder True) (\<lambda>exportRecord.
       (let collectionIDPathMap =
              (case collectionExportNames exportRecord of None \<Rightarrow> [] | Some names \<Rightarrow> names)
        in collectionRemover_loop exportRecord collectionIDPathMap exportFolder isCanceled
             deletedExportedCollectionIDs))"

text \<open>The path of the journal file, as the simplifier writes it.\<close>

abbreviation (input) jpath :: "string \<Rightarrow> string" where
  "jpath folder \<equiv> folder @ CHR ''/'' # exportRecordFileName"

subsection \<open>A sample export folder\<close>

text \<open>
  An export folder \<open>/e\<close> with the collections 10 (folder \<open>A\<close>, one exported file)
  and 20 (folder \<open>B\<close>, no exported file), used to run the model on.
\<close>

definition sample_record :: ExportRecord where
  "sample_record =
     \<lparr>version = 3, lastAttemptTimestamp = Some 1700000000000, stage = EXPORTING_FILES,
      fileExportNames = Some [(''1_10_1'', ''a.jpg'')],
      collectionExportNames = Some [(10, ''A''), (20, ''B'')]\<rparr>"

definition sample_world :: "content \<Rightarrow> world" where
  "sample_world recordFile =
     \<lparr>files = [(''/e/export_status.json'', recordFile)],
      dirs = [''/e'', ''/e/A'', ''/e/A/metadata'', ''/e/B'', ''/e/B/metadata''],
      faults = [], slept = [], interference = []\<rparr>"

definition sample_live_photo :: LivePhoto where
  "sample_live_photo =
     \<lparr>imageNameTitle = ''IMG_1.HEIC'', image = [1, 2], videoNameTitle = ''IMG_1.MOV'', video = [3]\<rparr>"

subsection \<open>The trash path of a deleted file\<close>

text \<open>
  \<^verbatim>\<open>s.replace(pattern, replacement)\<close> for a string pattern: the first occurrence is
  replaced. (The replacement is used literally; the code passes the empty string.)
\<close>

fun js_replace_first :: "string \<Rightarrow> string \<Rightarrow> string \<Rightarrow> string" where
  "js_replace_first pat rep [] = (if pat = [] then rep else [])"
| "js_replace_first pat rep (c # cs) =
     (if take (length pat) (c # cs) = pat then rep @ drop (length pat) (c # cs)
      else c # js_replace_first pat rep cs)"

text \<open>
  Modelled from the spec: \<^verbatim>\<open>splitFilenameAndExtension\<close> (utils/file) is not part of
  these sources. The specification's allocator preserves "the last \<open>.\<close>-separated
  extension if any": the name is split at its last dot, and there is no extension
  (\<open>None\<close>) when it has no dot.
\<close>

definition splitFilenameAndExtension :: "string \<Rightarrow> string \<times> string option" where
  "splitFilenameAndExtension filename =
     (if CHR ''.'' \<in> set filename
      then (rev (tl (dropWhile (\<lambda>c. c \<noteq> CHR ''.'') (rev filename))),
            Some (rev (takeWhile (\<lambda>c. c \<noteq> CHR ''.'') (rev filename))))
      else (filename, None))"

text \<open>
  The body of the \<^verbatim>\<open>while\<close> loop of \<^verbatim>\<open>getTrashedFileExportPath\<close>: the new value of
  \<^verbatim>\<open>trashedFilePath\<close>, computed from its current value. An empty extension is falsy.
\<close>

definition trashedFilePath_step :: "string \<Rightarrow> nat \<Rightarrow> string" where
  "trashedFilePath_step trashedFilePath count =
     (let trashedFilePathParts = splitFilenameAndExtension trashedFilePath
      in (case snd trashedFilePathParts of
            Some ext \<Rightarrow>
              if ext \<noteq> []
              then fst trashedFilePathParts @ ''('' @ string_of_nat count @ '').'' @ ext
              else fst trashedFilePathParts @ ''('' @ string_of_nat count @ '')''
          | None \<Rightarrow> fst trashedFilePathParts @ ''('' @ string_of_nat count @ '')''))"

definition existing_paths :: "world \<Rightarrow> string list" where
  "existing_paths w = dirs w @ map fst (files w)"

text \<open>Every round of the loop makes the path longer; this is why the loop ends.\<close>

lemma splitFilenameAndExtension_length:
  assumes "splitFilenameAndExtension s = (stem, Some ext)"
  shows "length s = length stem + 1 + length ext"
proof -
  let ?P = "\<lambda>c. c \<noteq> CHR ''.''"
  from assms have dot: "CHR ''.'' \<in> set s"
    and stem: "stem = rev (tl (dropWhile ?P (rev s)))"
    and ext: "ext = rev (takeWhile ?P (rev s))"
    by (auto simp: splitFilenameAndExtension_def split: if_splits)
  from dot have "dropWhile ?P (rev s) \<noteq> []"
    by (simp add: dropWhile_eq_Nil_conv)
  then have "length (dropWhile ?P (rev s)) = length (tl (dropWhile ?P (rev s))) + 1"
    by (cases "dropWhile ?P (rev s)") simp_all
  moreover have "length (rev s) = length (takeWhile ?P (rev s)) + length (dropWhile ?P (rev s))"
    by (metis length_append takeWhile_dropWhile_id)
  ultimately show ?thesis
    by (simp add: stem ext)
qed

lemma trashedFilePath_step_longer: "length p < length (trashedFilePath_step p count)"
proof (cases "splitFilenameAndExtension p")
  case (Pair stem ext)
  show ?thesis
  proof (cases ext)
    case None
    with Pair have "stem = p"
      by (auto simp: splitFilenameAndExtension_def split: if_splits)
    with Pair None show ?thesis
      by (simp add: trashedFilePath_step_def Let_def)
  next
    case (Some e)
    with Pair have "length p = length stem + 1 + length e"
      by (simp add: splitFilenameAndExtension_length)
    with Pair Some show ?thesis
      by (simp add: trashedFilePath_step_def Let_def)
  qed
qed

lemma filter_length_mono:
  "(\<And>x. P x \<Longrightarrow> Q x) \<Longrightarrow> length (filter P xs) \<le> length (filter Q xs)"
  by (induction xs) auto

lemma filter_length_less:
  assumes "\<And>x. P x \<Longrightarrow> Q x" "y \<in> set xs" "Q y" "\<not> P y"
  shows "length (filter P xs) < length (filter Q xs)"
  using assms(2)
proof (induction xs)
  case Nil
  then show ?case by simp
next
  case (Cons x xs)
  have le: "length (filter P xs) \<le> length (filter Q xs)"
    by (rule filter_length_mono) (rule assms(1))
  show ?case
  proof (cases "y = x")
    case True
    with le assms(3,4) show ?thesis by simp
  next
    case False
    with Cons have "length (filter P xs) < length (filter Q xs)" by simp
    with assms(1)[of x] show ?thesis by auto
  qed
qed

lemma fs_exists_existing_paths: "fs_exists w p \<longleftrightarrow> p \<in> set (existing_paths w)"
  by (auto simp: fs_exists_def existing_paths_def)

text \<open>
  The \<^verbatim>\<open>while\<close> loop: \<^verbatim>\<open>exportService.exists\<close> is asked about the current path, and
  the path is rewritten while it exists.
\<close>

function getTrashedFileExportPath_loop :: "world \<Rightarrow> string \<Rightarrow> nat \<Rightarrow> string" where
  "getTrashedFileExportPath_loop w trashedFilePath count =
     (if fs_exists w trashedFilePath
      then getTrashedFileExportPath_loop w (trashedFilePath_step trashedFilePath count) (count + 1)
      else trashedFilePath)"
  by pat_completeness auto
termination
proof (relation "measure (\<lambda>(w, p, count).
    length (filter (\<lambda>q. length p \<le> length q) (existing_paths w)))")
  show "wf (measure (\<lambda>(w, p, count).
    length (filter (\<lambda>q. length p \<le> length q) (existing_paths w))))"
    by simp
next
  fix w :: world and trashedFilePath :: string and count :: nat
  assume "fs_exists w trashedFilePath"
  then have "trashedFilePath \<in> set (existing_paths w)"
    by (simp add: fs_exists_existing_paths)
  then have "length (filter (\<lambda>q. length (trashedFilePath_step trashedFilePath count) \<le> length q)
                (existing_paths w))
           < length (filter (\<lambda>q. length trashedFilePath \<le> length q) (existing_paths w))"
    using trashedFilePath_step_longer[of trashedFilePath count]
    by (intro filter_length_less[where y = trashedFilePath]) auto
  then show "((w, trashedFilePath_step trashedFilePath count, count + 1), w, trashedFilePath, count)
      \<in> measure (\<lambda>(w, p, count). length (filter (\<lambda>q. length p \<le> length q) (existing_paths w)))"
    by simp
qed

declare getTrashedFileExportPath_loop.simps [simp del]

definition getTrashedFileExportPath :: "world \<Rightarrow> string \<Rightarrow> string \<Rightarrow> string" where
  "getTrashedFileExportPath w exportDir path =
     (let fileRelativePath = js_replace_first (exportDir @ ''/'') [] path;
          trashedFilePath = exportDir @ ''/'' @ exportTrashDirectoryName @ ''/'' @ fileRelativePath
      in getTrashedFileExportPath_loop w trashedFilePath 1)"

definition trash_world :: world where
  "trash_world =
     \<lparr>files = [(''/e/Trash/A/a.jpg'', StreamData []), (''/e/Trash/A/a(1).jpg'', StreamData [])],
      dirs = [''/e'', ''/e/Trash'', ''/e/Trash/A''],
      faults = [], slept = [], interference = []\<rparr>"

subsection \<open>The scheduler\<close>

text \<open>
  The scheduler's fields and the export runs in flight. A run is an invocation of
  \<^verbatim>\<open>scheduleExport\<close> that went past the first test: it owns a cancellation status
  (\<^verbatim>\<open>isCanceled.status\<close>, here \<open>canceled\<close>) and is either inside
  \<^verbatim>\<open>preExport\<close>/\<^verbatim>\<open>runExport\<close> or, after they returned or threw without a
  cancellation, inside the \<^verbatim>\<open>postExport\<close> of its \<^verbatim>\<open>finally\<close> block.
  \<^verbatim>\<open>exportInProgress\<close> holds the canceller of a run, named by the run's number.
  \<open>timers\<close> counts the calls deferred with \<^verbatim>\<open>setTimeout(..., 0)\<close> that have not
  fired yet, \<open>started\<close> the runs started so far.
\<close>

datatype run_phase = Exporting | PostExport

record export_run =
  run_id :: nat
  canceled :: bool
  phase :: run_phase

record scheduler =
  exportInProgress :: "nat option"
  reRunNeeded :: bool
  runs :: "export_run list"
  timers :: nat
  started :: nat

definition init_scheduler :: scheduler where
  "init_scheduler =
     \<lparr>exportInProgress = None, reRunNeeded = False, runs = [], timers = 0, started = 0\<rparr>"

text \<open>
  \<^verbatim>\<open>scheduleExport\<close> up to its first \<^verbatim>\<open>await\<close>: either the re-run is noted, or a
  run starts.
\<close>

definition scheduleExport :: "scheduler \<Rightarrow> scheduler" where
  "scheduleExport s =
     (if exportInProgress s \<noteq> None then s\<lparr>reRunNeeded := True\<rparr>
      else s\<lparr>exportInProgress := Some (started s),
             runs := runs s @ [\<lparr>run_id = started s, canceled = False, phase = Exporting\<rparr>],
             started := started s + 1\<rparr>)"

text \<open>
  \<^verbatim>\<open>stopRunningExport\<close>: the canceller sets the status of its run, the slot and the
  flag are cleared. Without a run in progress the call on \<^verbatim>\<open>null\<close> throws, which
  the function catches and logs. The cancelled run goes on until it next looks at its
  status.
\<close>

definition stopRunningExport :: "scheduler \<Rightarrow> scheduler" where
  "stopRunningExport s =
     (case exportInProgress s of
        None \<Rightarrow> s
      | Some i \<Rightarrow>
          s\<lparr>runs := map (\<lambda>r. if run_id r = i then r\<lparr>canceled := True\<rparr> else r) (runs s),
            exportInProgress := None,
            reRunNeeded := False\<rparr>)"

text \<open>
  Run \<open>i\<close> leaves \<^verbatim>\<open>preExport\<close>/\<^verbatim>\<open>runExport\<close> (by return or by exception) and
  enters its \<^verbatim>\<open>finally\<close> block: a cancelled run is over (its \<^verbatim>\<open>postExport\<close>, if
  any, changes nothing of the scheduler), another one awaits \<^verbatim>\<open>postExport\<close>.
\<close>

definition export_done :: "nat \<Rightarrow> scheduler \<Rightarrow> scheduler" where
  "export_done i s =
     (case find (\<lambda>r. run_id r = i \<and> phase r = Exporting) (runs s) of
        None \<Rightarrow> s
      | Some r \<Rightarrow>
          if canceled r then s\<lparr>runs := filter (\<lambda>r. run_id r \<noteq> i) (runs s)\<rparr>
          else s\<lparr>runs := map (\<lambda>r. if run_id r = i then r\<lparr>phase := PostExport\<rparr> else r) (runs s)\<rparr>)"

text \<open>
  The \<^verbatim>\<open>postExport\<close> of run \<open>i\<close> returns: the slot is cleared, and when a re-run
  is needed the flag is cleared and one call of \<^verbatim>\<open>scheduleExport\<close> is deferred.
\<close>

definition postExport_done :: "nat \<Rightarrow> scheduler \<Rightarrow> scheduler" where
  "postExport_done i s =
     (case find (\<lambda>r. run_id r = i \<and> phase r = PostExport) (runs s) of
        None \<Rightarrow> s
      | Some r \<Rightarrow>
          (let s1 = s\<lparr>exportInProgress := None, runs := filter (\<lambda>r. run_id r \<noteq> i) (runs s)\<rparr>
           in if reRunNeeded s1 then s1\<lparr>reRunNeeded := False, timers := timers s1 + 1\<rparr> else s1))"

text \<open>A deferred call fires.\<close>

definition timer_fires :: "scheduler \<Rightarrow> scheduler" where
  "timer_fires s = (if timers s = 0 then s else scheduleExport (s\<lparr>timers := timers s - 1\<rparr>))"

datatype event = Schedule | Stop | ExportDone nat | PostExportDone nat | TimerFires

fun step :: "scheduler \<Rightarrow> event \<Rightarrow> scheduler" where
  "step s Schedule = scheduleExport s"
| "step s Stop = stopRunningExport s"
| "step s (ExportDone i) = export_done i s"
| "step s (PostExportDone i) = postExport_done i s"
| "step s TimerFires = timer_fires s"

definition exec :: "event list \<Rightarrow> scheduler \<Rightarrow> scheduler" where
  "exec events s = foldl step s events"

text \<open>
  One run at most, which owns the slot and is not cancelled (or no run and a free slot).
\<close>

definition single_flight :: "scheduler \<Rightarrow> bool" where
  "single_flight s =
     (case runs s of
        [] \<Rightarrow> exportInProgress s = None
      | [r] \<Rightarrow> exportInProgress s = Some (run_id r) \<and> \<not> canceled r
      | _ \<Rightarrow> False)"

subsection \<open>Recognising a live photo's export name\<close>

text \<open>
  \<^verbatim>\<open>JSON.parse\<close> is the platform's. Whether it accepts a text is modelled by a
  recogniser of the JSON grammar (ECMA-404) that reads the text character by character:
  a state of the lexer and parser and a stack of the open arrays and objects.
\<close>

datatype json_ctx = InArray | InObject

datatype json_state =
    ExpectValue
  | ExpectValueOrEnd
  | ExpectKeyOrEnd
  | ExpectKey
  | ExpectColon
  | AfterValue
  | InString bool
  | InEscape bool
  | InUnicode bool nat
  | InLiteral string
  | NumMinus
  | NumZero
  | NumInt
  | NumDot
  | NumFrac
  | NumE
  | NumESign
  | NumExp

text \<open>
  \<open>InString key\<close>: inside a string, which is a key of an object when \<open>key\<close> holds;
  \<open>InUnicode key n\<close>: \<open>n\<close> hexadecimal digits of a \<open>\u\<close> escape are still to come;
  \<open>InLiteral rest\<close>: the rest of \<open>true\<close>, \<open>false\<close> or \<open>null\<close> is still to come; the
  \<open>Num\<close> states follow the grammar of numbers.
\<close>

definition json_ws :: "char \<Rightarrow> bool" where
  "json_ws c = (c = CHR '' '' \<or> c = CHR 0x09 \<or> c = CHR 0x0A \<or> c = CHR 0x0D)"

definition json_hex :: "char \<Rightarrow> bool" where
  "json_hex c =
     (is_digit c \<or> c \<in> set ''abcdef'' \<or> c \<in> set ''ABCDEF'')"

definition json_value_start :: "char \<Rightarrow> json_ctx list \<Rightarrow> (json_state \<times> json_ctx list) option" where
  "json_value_start c stack =
     (if c = CHR 0x7B then Some (ExpectKeyOrEnd, InObject # stack)
      else if c = CHR ''['' then Some (ExpectValueOrEnd, InArray # stack)
      else if c = CHR 0x22 then Some (InString False, stack)
      else if c = CHR ''-'' then Some (NumMinus, stack)
      else if c = CHR ''0'' then Some (NumZero, stack)
      else if is_digit c then Some (NumInt, stack)
      else if c = CHR ''t'' then Some (InLiteral ''rue'', stack)
      else if c = CHR ''f'' then Some (InLiteral ''alse'', stack)
      else if c = CHR ''n'' then Some (InLiteral ''ull'', stack)
      else None)"

definition json_after_value :: "char \<Rightarrow> json_ctx list \<Rightarrow> (json_state \<times> json_ctx list) option" where
  "json_after_value c stack =
     (if json_ws c then Some (AfterValue, stack)
      else if c = CHR '','' then
        (case stack of
           [] \<Rightarrow> None
         | InArray # _ \<Rightarrow> Some (ExpectValue, stack)
         | InObject # _ \<Rightarrow> Some (ExpectKey, stack))
      else if c = CHR '']'' then
        (case stack of InArray # rest \<Rightarrow> Some (AfterValue, rest) | _ \<Rightarrow> None)
      else if c = CHR 0x7D then
        (case stack of InObject # rest \<Rightarrow> Some (AfterValue, rest) | _ \<Rightarrow> None)
      else None)"

fun json_step :: "json_state \<Rightarrow> json_ctx list \<Rightarrow> char \<Rightarrow> (json_state \<times> json_ctx list) option" where
  "json_step ExpectValue stack c =
     (if json_ws c then Some (ExpectValue, stack) else json_value_start c stack)"
| "json_step ExpectValueOrEnd stack c =
     (if json_ws c then Some (ExpectValueOrEnd, stack)
      else if c = CHR '']'' then Some (AfterValue, tl stack)
      else json_value_start c stack)"
| "json_step ExpectKeyOrEnd stack c =
     (if json_ws c then Some (ExpectKeyOrEnd, stack)
      else if c = CHR 0x7D then Some (AfterValue, tl stack)
      else if c = CHR 0x22 then Some (InString True, stack)
      else None)"
| "json_step ExpectKey stack c =
     (if json_ws c then Some (ExpectKey, stack)
      else if c = CHR 0x22 then Some (InString True, stack)
      else None)"
| "json_step ExpectColon stack c =
     (if json_ws c then Some (ExpectColon, stack)
      else if c = CHR '':'' then Some (ExpectValue, stack)
      else None)"
| "json_step AfterValue stack c = json_after_value c stack"
| "json_step (InString key) stack c =
     (if c = CHR 0x22 then Some (if key then ExpectColon else AfterValue, stack)
      else if c = CHR 0x5C then Some (InEscape key, stack)
      else if (of_char c :: nat) < 32 then None
      else Some (InString key, stack))"
| "json_step (InEscape key) stack c =
     (if c = CHR 0x22 \<or> c = CHR 0x5C \<or> c \<in> set ''/bfnrt'' then Some (InString key, stack)
      else if c = CHR ''u'' then Some (InUnicode key 4, stack)
      else None)"
| "json_step (InUnicode key n) stack c =
     (if json_hex c then Some (if n \<le> 1 then InString key else InUnicode key (n - 1), stack)
      else None)"
| "json_step (InLiteral rest) stack c =
     (case rest of
        [] \<Rightarrow> None
      | x # xs \<Rightarrow>
          if c = x then Some (if xs = [] then AfterValue else InLiteral xs, stack) else None)"
| "json_step NumMinus stack c =
     (if c = CHR ''0'' then Some (NumZero, stack)
      else if is_digit c then Some (NumInt, stack)
      else None)"
| "json_step NumZero stack c =
     (if c = CHR ''.'' then Some (NumDot, stack)
      else if c = CHR ''e'' \<or> c = CHR ''E'' then Some (NumE, stack)
      else json_after_value c stack)"
| "json_step NumInt stack c =
     (if is_digit c then Some (NumInt, stack)
      else if c = CHR ''.'' then Some (NumDot, stack)
      else if c = CHR ''e'' \<or> c = CHR ''E'' then Some (NumE, stack)
      else json_after_value c stack)"
| "json_step NumDot stack c = (if is_digit c then Some (NumFrac, stack) else None)"
| "json_step NumFrac stack c =
     (if is_digit c then Some (NumFrac, stack)
      else if c = CHR ''e'' \<or> c = CHR ''E'' then Some (NumE, stack)
      else json_after_value c stack)"
| "json_step NumE stack c =
     (if c = CHR ''+'' \<or> c = CHR ''-'' then Some (NumESign, stack)
      else if is_digit c then Some (NumExp, stack)
      else None)"
| "json_step NumESign stack c = (if is_digit c then Some (NumExp, stack) else None)"
| "json_step NumExp stack c =
     (if is_digit c then Some (NumExp, stack) else json_after_value c stack)"

fun json_run :: "json_state \<Rightarrow> json_ctx list \<Rightarrow> string \<Rightarrow> (json_state \<times> json_ctx list) option" where
  "json_run st stack [] = Some (st, stack)"
| "json_run st stack (c # cs) =
     (case json_step st stack c of
        None \<Rightarrow> None
      | Some (st', stack') \<Rightarrow> json_run st' stack' cs)"

text \<open>A text is accepted when it ends after one complete value, with nothing left open.\<close>

definition json_accepts :: "string \<Rightarrow> bool" where
  "json_accepts s =
     (case json_run ExpectValue [] s of
        None \<Rightarrow> False
      | Some (st, stack) \<Rightarrow>
          stack = [] \<and> (st = AfterValue \<or> st = NumZero \<or> st = NumInt \<or> st = NumFrac \<or> st = NumExp))"

text \<open>\<^verbatim>\<open>JSON.parse(text)\<close>, as far as throwing goes.\<close>

definition JSON_parse :: "string \<Rightarrow> error + unit" where
  "JSON_parse s = (if json_accepts s then Inr () else Inl SYNTAX_ERROR)"

definition isLivePhotoExportName :: "string \<Rightarrow> bool" where
  "isLivePhotoExportName exportName =
     (case JSON_parse exportName of Inr _ \<Rightarrow> True | Inl e \<Rightarrow> False)"

section \<open>Properties\<close>

subsection \<open>Printing and reading integers\<close>

lemma is_digit_digit_char: "d < 10 \<Longrightarrow> is_digit (digit_char d)"
  by (simp add: is_digit_def digit_char_def)

lemma digit_char_value: "d < 10 \<Longrightarrow> (of_char (digit_char d) :: nat) - 48 = d"
  by (simp add: digit_char_def)

lemma string_of_nat_digits: "list_all is_digit (string_of_nat n)"
proof (induction n rule: string_of_nat.induct)
  case (1 n)
  show ?case
  proof (cases "n < 10")
    case True
    then show ?thesis
      by (subst string_of_nat.simps) (simp add: is_digit_digit_char)
  next
    case False
    with "1" show ?thesis
      by (subst string_of_nat.simps) (simp add: is_digit_digit_char)
  qed
qed

lemma string_of_nat_nonempty: "string_of_nat n \<noteq> []"
  by (subst string_of_nat.simps) simp

lemma nat_of_digits_snoc:
  "nat_of_digits (ds @ [c]) = 10 * nat_of_digits ds + (of_char c - 48)"
  by (simp add: nat_of_digits_def)

lemma nat_of_digits_string_of_nat: "nat_of_digits (string_of_nat n) = n"
proof (induction n rule: string_of_nat.induct)
  case (1 n)
  show ?case
  proof (cases "n < 10")
    case True
    then show ?thesis
      by (subst string_of_nat.simps) (simp add: nat_of_digits_def digit_char_value)
  next
    case False
    with "1" show ?thesis
      by (subst string_of_nat.simps) (simp add: nat_of_digits_snoc digit_char_value)
  qed
qed

lemma is_digit_not_minus: "is_digit c \<Longrightarrow> c \<noteq> CHR ''-''"
  by (auto simp: is_digit_def)

lemma is_digit_not_plus: "is_digit c \<Longrightarrow> c \<noteq> CHR ''+''"
  by (auto simp: is_digit_def)

lemma is_digit_not_underscore: "is_digit c \<Longrightarrow> c \<noteq> CHR ''_''"
  by (auto simp: is_digit_def)

lemma js_Number_string_of_int: "js_Number (string_of_int i) = Some i"
proof (cases "i < 0")
  case True
  then show ?thesis
    by (simp add: js_Number_def string_of_int_def string_of_nat_digits
        string_of_nat_nonempty nat_of_digits_string_of_nat)
next
  case False
  obtain c cs where s: "string_of_nat (nat i) = c # cs"
    using string_of_nat_nonempty [of "nat i"] by (cases "string_of_nat (nat i)") auto
  have d: "list_all is_digit (c # cs)"
    using string_of_nat_digits [of "nat i"] by (simp add: s)
  then have "c \<noteq> CHR ''-''" "c \<noteq> CHR ''+''"
    by (auto dest: is_digit_not_minus is_digit_not_plus)
  moreover have "nat_of_digits (c # cs) = nat i"
    using nat_of_digits_string_of_nat [of "nat i"] by (simp add: s)
  ultimately show ?thesis
    using False d by (simp add: js_Number_def string_of_int_def s)
qed

lemma string_of_int_no_underscore: "CHR ''_'' \<notin> set (string_of_int i)"
proof -
  have "\<forall>c \<in> set (string_of_nat n). c \<noteq> CHR ''_''" for n
    using string_of_nat_digits [of n] by (auto simp: list_all_iff dest: is_digit_not_underscore)
  then show ?thesis
    by (auto simp: string_of_int_def)
qed

lemma split_on_first:
  "sep \<notin> set a \<Longrightarrow> split_on sep (a @ sep # rest) = a # split_on sep rest"
  by (induction a) (auto split: list.splits)

subsection \<open>C8: the UID round trip\<close>

text \<open>
  C8. For every file (integer id, collection id and updation time), reading the
  collection id back from the file's UID \<open>"{id}_{collectionID}_{updationTime}"\<close> gives
  the file's collection id.
\<close>

theorem uid_roundtrip:
  "getCollectionIDFromFileUID (getExportRecordFileUID f) = Some (collectionID f)"
proof -
  let ?a = "string_of_int (file_id f)"
  let ?b = "string_of_int (collectionID f)"
  let ?c = "string_of_int (updationTime f)"
  have "split_on CHR ''_'' (?a @ CHR ''_'' # (?b @ CHR ''_'' # ?c))
          = ?a # ?b # split_on CHR ''_'' ?c"
    by (simp add: split_on_first string_of_int_no_underscore)
  then have "js_index (split_on CHR ''_'' (getExportRecordFileUID f)) 1 = Some ?b"
    by (simp add: getExportRecordFileUID_def js_index_def)
  then show ?thesis
    by (simp add: getCollectionIDFromFileUID_def js_Number_string_of_int)
qed

subsection \<open>C3: the files to export\<close>

lemma getUnExportedFiles_filter:
  "getUnExportedFiles allFiles r =
     filter (\<lambda>f. getExportRecordFileUID f \<notin> exportedFileUIDs r) allFiles"
  by (cases "fileExportNames r") (simp_all add: getUnExportedFiles_def exportedFileUIDs_def)

text \<open>
  C3, as stated, fails: the list is not put in the order of (collection id, file id).
  With an empty journal and the personal files (id 2, collection 1), (id 1, collection 1)
  in this order, the planner returns both files in the given order.
\<close>

theorem filesToExport_not_sorted:
  "\<not> sorted_wrt by_collection_then_id
       (filesToExport (runExport_plan name [sample_file 2 1 1, sample_file 1 1 1] []
          NULL_EXPORT_RECORD))"
  by (simp add: runExport_plan_def getUnExportedFiles_def NULL_EXPORT_RECORD_def
      by_collection_then_id_def sample_file_def)

text \<open>
  C3, amended. The planner's files to export are exactly the personal files whose UID is
  not a key of the journal's \<open>fileExportNames\<close>, in the order in which the personal
  files were given: the list is the given list filtered, no sorting is applied, and it
  is ordered by (collection id, file id) whenever the given list is.
\<close>

theorem filesToExport_exact:
  "filesToExport (runExport_plan ufn personalFiles colls r) =
     filter (\<lambda>f. getExportRecordFileUID f \<notin> exportedFileUIDs r) personalFiles
   \<and> set (filesToExport (runExport_plan ufn personalFiles colls r)) =
     {f \<in> set personalFiles. getExportRecordFileUID f \<notin> exportedFileUIDs r}
   \<and> (sorted_wrt by_collection_then_id personalFiles \<longrightarrow>
        sorted_wrt by_collection_then_id (filesToExport (runExport_plan ufn personalFiles colls r)))"
  by (simp add: runExport_plan_def getUnExportedFiles_filter sorted_wrt_filter)

theorem filesToExport_exact_witness:
  "sorted_wrt by_collection_then_id [sample_file 1 1 1, sample_file 2 1 1, sample_file 1 2 1]
   \<and> filesToExport (runExport_plan name [sample_file 1 1 1, sample_file 2 1 1, sample_file 1 2 1] []
        (NULL_EXPORT_RECORD\<lparr>fileExportNames := Some [(''2_1_1'', ''IMG.jpg'')]\<rparr>))
      = [sample_file 1 1 1, sample_file 1 2 1]
   \<and> sorted_wrt by_collection_then_id
        (filesToExport (runExport_plan name [sample_file 1 1 1, sample_file 2 1 1, sample_file 1 2 1] []
          (NULL_EXPORT_RECORD\<lparr>fileExportNames := Some [(''2_1_1'', ''IMG.jpg'')]\<rparr>)))"
proof -
  let ?fs = "[sample_file 1 1 1, sample_file 2 1 1, sample_file 1 2 1]"
  let ?r = "NULL_EXPORT_RECORD\<lparr>fileExportNames := Some [(''2_1_1'', ''IMG.jpg'')]\<rparr>"
  have s: "sorted_wrt by_collection_then_id ?fs"
    by (simp add: by_collection_then_id_def sample_file_def)
  have u1: "getExportRecordFileUID (sample_file 1 1 1) = ''1_1_1''"
    by code_simp
  have u2: "getExportRecordFileUID (sample_file 2 1 1) = ''2_1_1''"
    by code_simp
  have u3: "getExportRecordFileUID (sample_file 1 2 1) = ''1_2_1''"
    by code_simp
  have e: "exportedFileUIDs ?r = {''2_1_1''}"
    by (simp add: exportedFileUIDs_def NULL_EXPORT_RECORD_def)
  from filesToExport_exact [of name ?fs "[]" ?r] s show ?thesis
    by (simp add: u1 u2 u3 e)
qed

subsection \<open>C4: collections whose name did not change are not renamed\<close>

text \<open>
  C4. A collection that the journal records, and whose recorded name equals its current
  user-facing name once a trailing numbered suffix \<open>(k)\<close> is stripped, is not among the
  renamed collections.
\<close>

theorem unchanged_name_not_renamed:
  assumes "collectionExportNames r = Some names"
    and "map_of names (coll_id c) = Some recorded"
    and "replace_numbered_suffix recorded = ufn c"
  shows "c \<notin> set (renamedCollections (runExport_plan ufn personalFiles colls r))"
  using assms
  by (auto simp: runExport_plan_def getRenamedExportedCollections_def Let_def
      replace_numbered_suffix_def split: option.splits)

theorem unchanged_name_not_renamed_witness:
  "replace_numbered_suffix ''Summer(1)'' = ''Summer''
   \<and> \<lparr>coll_id = 7, owner_id = 1, name = ''Summer''\<rparr> \<notin>
       set (renamedCollections (runExport_plan name []
         [\<lparr>coll_id = 7, owner_id = 1, name = ''Summer''\<rparr>]
         (NULL_EXPORT_RECORD\<lparr>collectionExportNames := Some [(7, ''Summer(1)'')]\<rparr>)))"
proof -
  let ?c = "\<lparr>coll_id = 7, owner_id = 1, name = ''Summer''\<rparr>"
  let ?r = "NULL_EXPORT_RECORD\<lparr>collectionExportNames := Some [(7, ''Summer(1)'')]\<rparr>"
  have s: "replace_numbered_suffix ''Summer(1)'' = ''Summer''"
    by (simp add: replace_numbered_suffix_def match_numbered_suffix_def is_digit_def)
  have "collectionExportNames ?r = Some [(7, ''Summer(1)'')]"
    by simp
  moreover have "map_of [(7::int, ''Summer(1)'')] (coll_id ?c) = Some ''Summer(1)''"
    by simp
  moreover have "replace_numbered_suffix ''Summer(1)'' = name ?c"
    by (simp add: s)
  ultimately have "?c \<notin> set (renamedCollections (runExport_plan name [] [?c] ?r))"
    by (rule unchanged_name_not_renamed)
  with s show ?thesis
    by simp
qed

subsection \<open>Loading and updating the journal\<close>

lemma bind_io_ok:
  "bind_io m f w = (Inr y, w') \<Longrightarrow> \<exists>x w1. m w = (Inr x, w1) \<and> f x w1 = (Inr y, w')"
  by (auto simp: bind_io_def split: prod.splits sum.splits)

lemma journal_fs_exists: "journal w folder = Some r \<Longrightarrow> fs_exists w (jpath folder)"
  by (auto simp: journal_def fs_exists_def split: option.splits content.splits
      dest: map_of_SomeD intro: rev_image_eqI)

lemma journal_map_of: "journal w folder = Some r \<longleftrightarrow> map_of (files w) (jpath folder) = Some (RecordText r)"
  by (auto simp: journal_def split: option.splits content.splits)

lemma getExportRecord_try_valid:
  assumes "exportFolderExists w folder" "journal w folder = Some r"
    "ReadTextFile (jpath folder) \<notin> set (faults w)"
  shows "getExportRecord_try folder w = (Inr r, w)"
  using assms journal_fs_exists[OF assms(2)]
  by (simp add: getExportRecord_try_def bind_io_def verifyExportFolderExists_def return_io_def
      readTextFile_def parseExportRecord_def journal_map_of Let_def)

lemma getExportRecord_valid:
  assumes "exportFolderExists w folder" "journal w folder = Some r"
    "ReadTextFile (jpath folder) \<notin> set (faults w)"
  shows "getExportRecord folder retry w = (Inr r, w)"
  by (subst getExportRecord.simps) (simp add: getExportRecord_try_valid[OF assms])

lemma getExportRecord_False: "getExportRecord folder False w = getExportRecord_try folder w"
  by (subst getExportRecord.simps) (auto split: prod.splits sum.splits)


lemma getExportRecord_try_cases:
  assumes "getExportRecord_try folder w = (res, w')"
  shows "(w' = w \<and> (\<forall>r. res = Inr r \<longrightarrow> journal w folder = Some r \<and> exportFolderExists w folder))
       \<or> (res = Inr NULL_EXPORT_RECORD \<and> exportFolderExists w folder
           \<and> SaveFileToDisk (jpath folder) \<notin> set (faults w)
           \<and> w' = w\<lparr>files := AList.update (jpath folder) (RecordText NULL_EXPORT_RECORD) (files w)\<rparr>)"
  using assms
  by (auto simp: getExportRecord_try_def bind_io_def verifyExportFolderExists_def return_io_def
      throw_def readTextFile_def parseExportRecord_def journal_map_of Let_def
      createEmptyExportRecord_def saveFileToDisk_def
      split: if_splits option.splits content.splits)

lemma exportFolderExists_update:
  "exportFolderExists w folder \<Longrightarrow>
   exportFolderExists (w\<lparr>files := AList.update p c (files w)\<rparr>) folder"
  by (auto simp: exportFolderExists_def fs_exists_def dom_update)

lemma journal_update_same:
  "journal (w\<lparr>files := AList.update (jpath folder) (RecordText r) (files w)\<rparr>) folder = Some r"
  by (simp add: journal_map_of update_conv')

lemma getExportRecord_try_ok:
  assumes "getExportRecord_try folder w = (Inr r, w')"
  shows "journal w' folder = Some r \<and> exportFolderExists w' folder"
  using getExportRecord_try_cases[OF assms]
  by (auto simp: journal_update_same exportFolderExists_update)

lemma getExportRecord_try_frame:
  assumes "getExportRecord_try folder w = (res, w')"
  shows "dirs w' = dirs w \<and> faults w' = faults w \<and> slept w' = slept w
         \<and> interference w' = interference w"
  using getExportRecord_try_cases[OF assms] by auto

lemma sleep_frame:
  "dirs (snd (sleep ms w)) = dirs w \<and> faults (snd (sleep ms w)) = faults w
   \<and> slept (snd (sleep ms w)) = slept w @ [ms]"
  by (simp add: sleep_def)

lemma getExportRecord_unfold:
  "getExportRecord folder retry w =
     (case getExportRecord_try folder w of
        (Inr exportRecord, w1) \<Rightarrow> (Inr exportRecord, w1)
      | (Inl e, w1) \<Rightarrow>
          if e = EXPORT_RECORD_JSON_PARSING_FAILED \<and> retry
          then getExportRecord_try folder (snd (sleep 1000 w1))
          else (Inl e, w1))"
  by (subst getExportRecord.simps)
    (auto simp: getExportRecord_False split: prod.splits sum.splits)

lemma getExportRecord_ok:
  assumes "getExportRecord folder retry w = (Inr r, w')"
  shows "journal w' folder = Some r \<and> exportFolderExists w' folder"
  using assms
  by (auto simp: getExportRecord_unfold split: prod.splits sum.splits if_splits
      dest: getExportRecord_try_ok)

lemma getExportRecord_frame:
  assumes "getExportRecord folder retry w = (res, w')"
  shows "dirs w' = dirs w \<and> faults w' = faults w"
proof (cases "getExportRecord_try folder w")
  case (Pair res1 w1)
  note f1 = getExportRecord_try_frame[OF Pair]
  show ?thesis
  proof (cases "res1 = Inl EXPORT_RECORD_JSON_PARSING_FAILED \<and> retry")
    case True
    then have "getExportRecord_try folder (snd (sleep 1000 w1)) = (res, w')"
      using assms Pair by (simp add: getExportRecord_unfold)
    from getExportRecord_try_frame[OF this] f1 show ?thesis
      by (simp add: sleep_frame)
  next
    case False
    then have "w' = w1"
      using assms Pair by (auto simp: getExportRecord_unfold split: sum.splits if_splits)
    with f1 show ?thesis by simp
  qed
qed

text \<open>With a valid journal a successful load reads it, so the read is not failing.\<close>

lemma getExportRecord_valid_ok:
  assumes "journal w folder = Some r" "getExportRecord folder retry w = (Inr r', w')"
  shows "ReadTextFile (jpath folder) \<notin> set (faults w) \<and> r' = r \<and> w' = w"
proof -
  have ex: "fs_exists w (jpath folder)" by (rule journal_fs_exists[OF assms(1)])
  have m: "map_of (files w) (jpath folder) = Some (RecordText r)"
    using assms(1) by (simp add: journal_map_of)
  show ?thesis
  proof (cases "exportFolderExists w folder \<and> ReadTextFile (jpath folder) \<notin> set (faults w)")
    case True
    then show ?thesis using assms by (simp add: getExportRecord_valid)
  next
    case False
    then have "\<exists>e. getExportRecord_try folder w = (Inl e, w) \<and> e \<noteq> EXPORT_RECORD_JSON_PARSING_FAILED"
      using ex m
      by (auto simp: getExportRecord_try_def bind_io_def verifyExportFolderExists_def return_io_def
          throw_def readTextFile_def Let_def)
    then show ?thesis using assms(2)
      by (auto simp: getExportRecord_unfold)
  qed
qed

lemma updateExportRecordHelper_ok:
  assumes "updateExportRecordHelper folder newData w = (Inr newRecord, w')"
  shows "\<exists>prior w0. getExportRecord folder True w = (Inr prior, w0)
          \<and> newRecord = spread prior newData
          \<and> SaveFileToDisk (jpath folder) \<notin> set (faults w0)
          \<and> w' = w0\<lparr>files := AList.update (jpath folder) (RecordText newRecord) (files w0)\<rparr>"
  using assms
  by (auto simp: updateExportRecordHelper_def catch_io_def bind_io_def Let_def return_io_def
      throw_def saveFileToDisk_def split: prod.splits sum.splits if_splits)

lemma updateExportRecordHelper_valid:
  assumes "exportFolderExists w folder" "journal w folder = Some r"
    "ReadTextFile (jpath folder) \<notin> set (faults w)"
    "SaveFileToDisk (jpath folder) \<notin> set (faults w)"
  shows "updateExportRecordHelper folder newData w =
     (Inr (spread r newData),
      w\<lparr>files := AList.update (jpath folder) (RecordText (spread r newData)) (files w)\<rparr>)"
  using assms(4)
  by (simp add: updateExportRecordHelper_def catch_io_def bind_io_def Let_def return_io_def
      saveFileToDisk_def getExportRecord_valid[OF assms(1,2,3)])

subsection \<open>C10: a journal update is a field-wise merge\<close>

text \<open>
  C10. A journal update with partial data that succeeds is a field-wise merge: the
  helper loads a prior record (the one the journal file holds then), and the record it
  returns and persists has, for each of the five fields, the value of \<open>newData\<close> when
  \<open>newData\<close> has the field and the prior value otherwise.
\<close>

theorem journal_update_merges_fieldwise:
  assumes "updateExportRecordHelper folder newData w = (Inr newRecord, w')"
  shows "\<exists>prior w0. getExportRecord folder True w = (Inr prior, w0)
     \<and> journal w0 folder = Some prior
     \<and> journal w' folder = Some newRecord
     \<and> version newRecord = (case p_version newData of None \<Rightarrow> version prior | Some v \<Rightarrow> v)
     \<and> lastAttemptTimestamp newRecord =
         (case p_lastAttemptTimestamp newData of None \<Rightarrow> lastAttemptTimestamp prior | Some t \<Rightarrow> t)
     \<and> stage newRecord = (case p_stage newData of None \<Rightarrow> stage prior | Some s \<Rightarrow> s)
     \<and> fileExportNames newRecord =
         (case p_fileExportNames newData of None \<Rightarrow> fileExportNames prior | Some n \<Rightarrow> Some n)
     \<and> collectionExportNames newRecord =
         (case p_collectionExportNames newData of
            None \<Rightarrow> collectionExportNames prior | Some n \<Rightarrow> Some n)"
proof -
  from updateExportRecordHelper_ok[OF assms] obtain prior w0 where
    g: "getExportRecord folder True w = (Inr prior, w0)"
    and n: "newRecord = spread prior newData"
    and w': "w' = w0\<lparr>files := AList.update (jpath folder) (RecordText newRecord) (files w0)\<rparr>"
    by blast
  have "journal w0 folder = Some prior"
    using getExportRecord_ok[OF g] by simp
  moreover have "journal w' folder = Some newRecord"
    by (simp add: w' journal_update_same)
  ultimately show ?thesis
    using g n by (simp add: spread_def)
qed

theorem journal_update_merges_fieldwise_witness:
  "\<exists>prior w0.
     getExportRecord ''/e'' True (sample_world (RecordText sample_record)) = (Inr prior, w0)
     \<and> journal w0 ''/e'' = Some prior
     \<and> journal (sample_world (RecordText (sample_record\<lparr>stage := FINISHED\<rparr>))) ''/e''
         = Some (sample_record\<lparr>stage := FINISHED\<rparr>)
     \<and> fileExportNames (sample_record\<lparr>stage := FINISHED\<rparr>) = fileExportNames prior
     \<and> collectionExportNames (sample_record\<lparr>stage := FINISHED\<rparr>) = collectionExportNames prior"
proof -
  let ?nd = "\<lparr>p_version = None, p_lastAttemptTimestamp = None, p_stage = Some FINISHED,
              p_fileExportNames = None, p_collectionExportNames = None\<rparr>"
  have h: "updateExportRecordHelper ''/e'' ?nd (sample_world (RecordText sample_record))
        = (Inr (sample_record\<lparr>stage := FINISHED\<rparr>),
           sample_world (RecordText (sample_record\<lparr>stage := FINISHED\<rparr>)))"
    by code_simp
  from journal_update_merges_fieldwise[OF h] obtain prior w0 where
    "getExportRecord ''/e'' True (sample_world (RecordText sample_record)) = (Inr prior, w0)"
    "journal w0 ''/e'' = Some prior"
    "journal (sample_world (RecordText (sample_record\<lparr>stage := FINISHED\<rparr>))) ''/e''
       = Some (sample_record\<lparr>stage := FINISHED\<rparr>)"
    "fileExportNames (sample_record\<lparr>stage := FINISHED\<rparr>) = fileExportNames prior"
    "collectionExportNames (sample_record\<lparr>stage := FINISHED\<rparr>) = collectionExportNames prior"
    by auto
  then show ?thesis
    by blast
qed

subsection \<open>C7: one retry after a parsing failure\<close>

lemma fold_update_keys:
  "k \<in> fst ` set al \<Longrightarrow>
   k \<in> fst ` set (fold (\<lambda>entry. AList.update (fst entry) (snd entry)) writes al)"
  by (induction writes arbitrary: al) (auto simp: dom_update)

lemma exportFolderExists_sleep:
  assumes "exportFolderExists w folder"
  shows "exportFolderExists (snd (sleep ms w)) folder"
proof (cases "folder \<in> set (dirs w)")
  case True
  with assms show ?thesis
    by (simp add: exportFolderExists_def fs_exists_def sleep_def)
next
  case False
  with assms have "folder \<in> fst ` set (files w)"
    by (simp add: exportFolderExists_def fs_exists_def)
  then have "folder \<in> fst ` set (files (snd (sleep ms w)))"
    by (cases "interference w") (simp_all add: sleep_def fold_update_keys)
  with assms show ?thesis
    by (simp add: exportFolderExists_def fs_exists_def)
qed

lemma getExportRecord_try_unparseable:
  assumes "exportFolderExists w folder"
    and "map_of (files w) (jpath folder) = Some recordFile"
    and "\<forall>r. recordFile \<noteq> RecordText r"
    and "ReadTextFile (jpath folder) \<notin> set (faults w)"
  shows "getExportRecord_try folder w = (Inl EXPORT_RECORD_JSON_PARSING_FAILED, w)"
proof -
  have "fs_exists w (jpath folder)"
    using assms(2) by (auto simp: fs_exists_def dest: map_of_SomeD intro: rev_image_eqI)
  then show ?thesis
    using assms
    by (cases recordFile)
      (simp_all add: getExportRecord_try_def bind_io_def verifyExportFolderExists_def
        return_io_def throw_def readTextFile_def parseExportRecord_def Let_def)
qed

text \<open>
  C7. When the export folder exists and the journal file exists but does not parse,
  loading the journal sleeps one second (once) and makes exactly one more attempt, in
  the world after the sleep: its outcome is the outcome of the load. If the file parses
  then, its record is returned; if it fails to parse again, the parsing failure is
  thrown, with no further sleep or attempt.
\<close>

theorem journal_parse_failure_retried_once:
  assumes "exportFolderExists w folder"
    and "map_of (files w) (folder @ ''/'' @ exportRecordFileName) = Some recordFile"
    and "\<forall>r. recordFile \<noteq> RecordText r"
    and "ReadTextFile (folder @ ''/'' @ exportRecordFileName) \<notin> set (faults w)"
  shows "getExportRecord folder True w = getExportRecord_try folder (snd (sleep 1000 w))
     \<and> slept (snd (getExportRecord folder True w)) = slept w @ [1000]
     \<and> (journal (snd (sleep 1000 w)) folder = Some r \<longrightarrow>
          getExportRecord folder True w = (Inr r, snd (sleep 1000 w)))
     \<and> (map_of (files (snd (sleep 1000 w))) (folder @ ''/'' @ exportRecordFileName) = Some recordFile'
          \<and> (\<forall>r. recordFile' \<noteq> RecordText r) \<longrightarrow>
          getExportRecord folder True w
            = (Inl EXPORT_RECORD_JSON_PARSING_FAILED, snd (sleep 1000 w)))"
proof -
  let ?w1 = "snd (sleep 1000 w)"
  have first: "getExportRecord_try folder w = (Inl EXPORT_RECORD_JSON_PARSING_FAILED, w)"
    using assms by (intro getExportRecord_try_unparseable) simp_all
  then have retry: "getExportRecord folder True w = getExportRecord_try folder ?w1"
    by (simp add: getExportRecord_unfold)
  have ex1: "exportFolderExists ?w1 folder"
    by (rule exportFolderExists_sleep[OF assms(1)])
  have f1: "ReadTextFile (jpath folder) \<notin> set (faults ?w1)"
    using assms(4) by (simp add: sleep_frame)
  have "slept (snd (getExportRecord_try folder ?w1)) = slept w @ [1000]"
    using getExportRecord_try_frame[of folder ?w1] by (cases "getExportRecord_try folder ?w1")
      (simp add: sleep_frame)
  moreover have "getExportRecord_try folder ?w1 = (Inr r, ?w1)" if "journal ?w1 folder = Some r"
    using getExportRecord_try_valid[OF ex1 that f1] .
  moreover have "getExportRecord_try folder ?w1 = (Inl EXPORT_RECORD_JSON_PARSING_FAILED, ?w1)"
    if "map_of (files ?w1) (jpath folder) = Some recordFile'" "\<forall>r. recordFile' \<noteq> RecordText r"
    using getExportRecord_try_unparseable[OF ex1 that f1] .
  ultimately show ?thesis
    using retry by simp
qed

theorem journal_parse_failure_retried_once_witness:
  "exportFolderExists (sample_world Unparseable) ''/e''
   \<and> getExportRecord ''/e'' True (sample_world Unparseable)
       = (Inl EXPORT_RECORD_JSON_PARSING_FAILED, (sample_world Unparseable)\<lparr>slept := [1000]\<rparr>)
   \<and> getExportRecord ''/e'' True
         ((sample_world Unparseable)
            \<lparr>interference := [[(''/e/export_status.json'', RecordText sample_record)]]\<rparr>)
       = (Inr sample_record, (sample_world (RecordText sample_record))\<lparr>slept := [1000]\<rparr>)"
proof -
  let ?wa = "sample_world Unparseable"
  let ?wb = "(sample_world Unparseable)
               \<lparr>interference := [[(''/e/export_status.json'', RecordText sample_record)]]\<rparr>"
  have ea: "exportFolderExists ?wa ''/e''" and eb: "exportFolderExists ?wb ''/e''"
    by (simp_all add: exportFolderExists_def fs_exists_def sample_world_def)
  have ma: "map_of (files ?wa) (''/e'' @ ''/'' @ exportRecordFileName) = Some Unparseable"
    and mb: "map_of (files ?wb) (''/e'' @ ''/'' @ exportRecordFileName) = Some Unparseable"
    by (simp_all add: sample_world_def exportRecordFileName_def)
  have u: "\<forall>r. Unparseable \<noteq> RecordText r"
    by simp
  have fa: "ReadTextFile (''/e'' @ ''/'' @ exportRecordFileName) \<notin> set (faults ?wa)"
    and fb: "ReadTextFile (''/e'' @ ''/'' @ exportRecordFileName) \<notin> set (faults ?wb)"
    by (simp_all add: sample_world_def)
  have sa: "snd (sleep 1000 ?wa) = ?wa\<lparr>slept := [1000]\<rparr>"
    by (simp add: sleep_def sample_world_def)
  have sb: "snd (sleep 1000 ?wb) = (sample_world (RecordText sample_record))\<lparr>slept := [1000]\<rparr>"
    by (simp add: sleep_def sample_world_def)
  have m4: "map_of (files (snd (sleep 1000 ?wa))) (''/e'' @ ''/'' @ exportRecordFileName)
              = Some Unparseable"
    by (simp add: sleep_def sample_world_def exportRecordFileName_def)
  have j4: "journal (snd (sleep 1000 ?wb)) ''/e'' = Some sample_record"
    by (simp add: sleep_def sample_world_def journal_def exportRecordFileName_def)
  have "getExportRecord ''/e'' True ?wa
          = (Inl EXPORT_RECORD_JSON_PARSING_FAILED, snd (sleep 1000 ?wa))"
    using journal_parse_failure_retried_once
      [OF ea ma u fa, where recordFile' = Unparseable] m4 u
    by blast
  moreover have "getExportRecord ''/e'' True ?wb = (Inr sample_record, snd (sleep 1000 ?wb))"
    using journal_parse_failure_retried_once
      [OF eb mb u fb, where r = sample_record] j4
    by blast
  ultimately show ?thesis
    using ea by (simp only: sa sb simp_thms)
qed

subsection \<open>C5: a collection that is not empty\<close>

lemma collectionRemover_try_nonempty:
  assumes "\<not> isCanceled" "exportFolderExists w exportFolder"
    "getCollectionExportedFiles exportRecord cid \<noteq> []"
  shows "collectionRemover_try exportRecord m exportFolder isCanceled cid w
           = (Inl COLLECTION_NOT_EMPTY, w)"
  using assms
  by (simp add: collectionRemover_try_def bind_io_def verifyExportFolderExists_def
      return_io_def throw_def Let_def)

text \<open>
  C5, amended. When the removal of a collection is attempted (the export is not
  cancelled and the export folder exists) and the journal record read at the start of
  the phase has a file entry of that collection, the error "collection is not empty" is
  thrown before the journal or any directory is touched (the world is unchanged); the
  handler of the round swallows it, and the loop goes on with the remaining ids.
\<close>

theorem nonempty_collection_is_skipped:
  assumes "\<not> isCanceled"
    and "exportFolderExists w exportFolder"
    and "getCollectionExportedFiles exportRecord cid \<noteq> []"
  shows "collectionRemover_try exportRecord m exportFolder isCanceled cid w
           = (Inl COLLECTION_NOT_EMPTY, w)
     \<and> collectionRemover_loop exportRecord m exportFolder isCanceled (cid # rest) w
           = collectionRemover_loop exportRecord m exportFolder isCanceled rest w"
  using collectionRemover_try_nonempty[OF assms, of m]
  by (simp add: bind_io_def catch_io_def return_io_def)

text \<open>
  C5, as stated, fails: the error of a non-empty collection does not leave the phase.
  In the sample folder, removing the collections 10 (not empty) and 20 returns without
  an error, and collection 20 is processed: its folder and its journal entry are gone.
\<close>

theorem nonempty_collection_does_not_stop_the_phase:
  "fst (collectionRemover [10, 20] ''/e'' False (sample_world (RecordText sample_record))) = Inr ()
   \<and> ''/e/B'' \<notin> set (dirs (snd (collectionRemover [10, 20] ''/e'' False
         (sample_world (RecordText sample_record)))))
   \<and> journal (snd (collectionRemover [10, 20] ''/e'' False
         (sample_world (RecordText sample_record)))) ''/e''
       = Some (sample_record\<lparr>collectionExportNames := Some [(10, ''A'')]\<rparr>)"
proof -
  have "collectionRemover [10, 20] ''/e'' False (sample_world (RecordText sample_record))
      = (Inr (),
         \<lparr>files = [(''/e/export_status.json'',
                    RecordText (sample_record\<lparr>collectionExportNames := Some [(10, ''A'')]\<rparr>))],
          dirs = [''/e'', ''/e/A'', ''/e/A/metadata''],
          faults = [], slept = [], interference = []\<rparr>)"
    by code_simp
  then show ?thesis
    by (simp add: journal_def exportRecordFileName_def)
qed

theorem nonempty_collection_is_skipped_witness:
  "getCollectionExportedFiles sample_record 10 = [''1_10_1'']
   \<and> collectionRemover_try sample_record [(10, ''A''), (20, ''B'')] ''/e'' False 10
        (sample_world (RecordText sample_record))
       = (Inl COLLECTION_NOT_EMPTY, sample_world (RecordText sample_record))
   \<and> collectionRemover_loop sample_record [(10, ''A''), (20, ''B'')] ''/e'' False [10, 20]
        (sample_world (RecordText sample_record))
       = collectionRemover_loop sample_record [(10, ''A''), (20, ''B'')] ''/e'' False [20]
        (sample_world (RecordText sample_record))"
proof -
  have g: "getCollectionExportedFiles sample_record 10 = [''1_10_1'']"
    by code_simp
  have e: "exportFolderExists (sample_world (RecordText sample_record)) ''/e''"
    by (simp add: exportFolderExists_def fs_exists_def sample_world_def)
  have n: "getCollectionExportedFiles sample_record 10 \<noteq> []"
    by (simp add: g)
  from nonempty_collection_is_skipped
    [of False "sample_world (RecordText sample_record)" "''/e''" sample_record 10
      "[(10, ''A''), (20, ''B'')]" "[20]", OF _ e n] g
  show ?thesis
    by simp
qed

subsection \<open>C1: a failed video write rolls the live photo back\<close>

lemma fs_exists_map_of:
  "fs_exists w p \<longleftrightarrow> p \<in> set (dirs w) \<or> map_of (files w) p \<noteq> None"
  by (simp add: fs_exists_def map_of_eq_None_iff)

lemma map_of_filter_key:
  "map_of (filter (\<lambda>entry. fst entry \<noteq> p) al) k = (if k = p then None else map_of al k)"
  by (induction al) auto

lemma spread_whole:
  assumes "collectionExportNames r' = collectionExportNames r"
    and "fileExportNames r' \<noteq> None"
  shows "spread r (whole r') = r'"
  using assms by (cases "collectionExportNames r") (auto simp: spread_def whole_def)

lemma spread_whole_files:
  "fileExportNames (spread r (whole (r'\<lparr>fileExportNames := Some names\<rparr>))) = Some names"
  by (simp add: spread_def whole_def)

lemma addFileExportedRecord_ok:
  assumes "addFileExportedRecord folder fileUID fileExportName w = (Inr u, w1)"
  shows "\<exists>r1 names. journal w1 folder = Some r1 \<and> fileExportNames r1 = Some names
           \<and> map_of names fileUID = Some fileExportName
           \<and> exportFolderExists w1 folder \<and> faults w1 = faults w \<and> dirs w1 = dirs w
           \<and> ReadTextFile (jpath folder) \<notin> set (faults w)
           \<and> SaveFileToDisk (jpath folder) \<notin> set (faults w)"
proof -
  from assms obtain r0 wa nr where
    g0: "getExportRecord folder True w = (Inr r0, wa)"
    and up: "updateExportRecordHelper folder
               (whole (r0\<lparr>fileExportNames := Some (AList.update fileUID fileExportName
                  (case fileExportNames r0 of None \<Rightarrow> [] | Some names \<Rightarrow> names))\<rparr>)) wa
             = (Inr nr, w1)"
    by (auto simp: addFileExportedRecord_def updateExportRecord_def Let_def return_io_def
        dest!: bind_io_ok)
  let ?names = "AList.update fileUID fileExportName
                  (case fileExportNames r0 of None \<Rightarrow> [] | Some names \<Rightarrow> names)"
  from updateExportRecordHelper_ok[OF up] obtain prior wb where
    g1: "getExportRecord folder True wa = (Inr prior, wb)"
    and nr: "nr = spread prior (whole (r0\<lparr>fileExportNames := Some ?names\<rparr>))"
    and sv: "SaveFileToDisk (jpath folder) \<notin> set (faults wb)"
    and w1: "w1 = wb\<lparr>files := AList.update (jpath folder) (RecordText nr) (files wb)\<rparr>"
    by blast
  note ja = getExportRecord_ok[OF g0]
  from getExportRecord_valid_ok[OF _ g1] ja have
    rd: "ReadTextFile (jpath folder) \<notin> set (faults wa)" and wb: "wb = wa"
    by simp_all
  note fa = getExportRecord_frame[OF g0]
  have "journal w1 folder = Some nr"
    by (simp add: w1 journal_update_same)
  moreover have "fileExportNames nr = Some ?names"
    by (simp add: nr spread_whole_files)
  moreover have "map_of ?names fileUID = Some fileExportName"
    by (simp add: update_conv')
  moreover have "exportFolderExists w1 folder"
    using ja by (simp add: w1 wb exportFolderExists_update)
  moreover have "faults w1 = faults w" "dirs w1 = dirs w"
    using fa by (simp_all add: w1 wb)
  ultimately show ?thesis
    using rd sv fa wb by auto
qed

lemma removeFileExportedRecord_valid:
  assumes "exportFolderExists w folder" "journal w folder = Some r"
    "fileExportNames r = Some names"
    "ReadTextFile (jpath folder) \<notin> set (faults w)"
    "SaveFileToDisk (jpath folder) \<notin> set (faults w)"
  shows "removeFileExportedRecord folder fileUID w =
     (Inr (),
      w\<lparr>files := AList.update (jpath folder)
          (RecordText (r\<lparr>fileExportNames := Some (filter (\<lambda>entry. fst entry \<noteq> fileUID) names)\<rparr>))
          (files w)\<rparr>)"
proof -
  let ?r' = "r\<lparr>fileExportNames := Some (filter (\<lambda>entry. fst entry \<noteq> fileUID) names)\<rparr>"
  have "spread r (whole ?r') = ?r'"
    by (rule spread_whole) simp_all
  then show ?thesis
    using assms(3)
    by (simp add: removeFileExportedRecord_def bind_io_def Let_def return_io_def
        updateExportRecord_def getExportRecord_valid[OF assms(1,2,4)]
        updateExportRecordHelper_valid[OF assms(1,2,4,5)])
qed

lemma journal_path_no_slash: "CHR ''/'' \<notin> set exportRecordFileName"
  by (simp add: exportRecordFileName_def)

lemma nested_name_not_journal: "cname @ CHR ''/'' # rest \<noteq> exportRecordFileName"
proof
  assume "cname @ CHR ''/'' # rest = exportRecordFileName"
  then have "\<exists>ys zs. exportRecordFileName = ys @ CHR ''/'' # zs"
    by metis
  then have "CHR ''/'' \<in> set exportRecordFileName"
    by (simp only: in_set_conv_decomp)
  then show False
    by (simp add: journal_path_no_slash)
qed

lemma saveStreamToDisk_ok:
  "SaveStreamToDisk p \<notin> set (faults w) \<Longrightarrow>
   saveStreamToDisk p d w = (Inr (), w\<lparr>files := AList.update p (StreamData d) (files w)\<rparr>)"
  by (simp add: saveStreamToDisk_def)

lemma saveStreamToDisk_fault:
  "SaveStreamToDisk p \<in> set (faults w) \<Longrightarrow>
   saveStreamToDisk p d w = (Inl (PLATFORM_ERROR (SaveStreamToDisk p)), w)"
  by (simp add: saveStreamToDisk_def)

lemma saveMetadataFile_ok:
  "SaveFileToDisk (getFileMetadataExportPath cpath n) \<notin> set (faults w) \<Longrightarrow>
   saveMetadataFile cpath n file w =
     (Inr (), w\<lparr>files := AList.update (getFileMetadataExportPath cpath n)
                 (SidecarText (getGoogleLikeMetadataFile n file)) (files w)\<rparr>)"
  by (simp add: saveMetadataFile_def saveFileToDisk_def)

lemma deleteFile_ok:
  "DeleteFile p \<notin> set (faults w) \<Longrightarrow>
   deleteFile p w = (Inr (), w\<lparr>files := filter (\<lambda>entry. fst entry \<noteq> p) (files w)\<rparr>)"
  by (simp add: deleteFile_def)

text \<open>Writing or deleting a file at another path keeps the export folder and the journal.\<close>

lemma journal_update_other:
  "p \<noteq> jpath folder \<Longrightarrow>
   journal (w\<lparr>files := AList.update p c (files w)\<rparr>) folder = journal w folder"
  by (simp add: journal_def update_conv')

lemma journal_filter_other:
  "p \<noteq> jpath folder \<Longrightarrow>
   journal (w\<lparr>files := filter (\<lambda>entry. fst entry \<noteq> p) (files w)\<rparr>) folder = journal w folder"
  by (simp add: journal_def map_of_filter_key)

lemma exportFolderExists_filter:
  "exportFolderExists w folder \<Longrightarrow> p \<noteq> folder \<Longrightarrow>
   exportFolderExists (w\<lparr>files := filter (\<lambda>entry. fst entry \<noteq> p) (files w)\<rparr>) folder"
  by (simp add: exportFolderExists_def fs_exists_map_of map_of_filter_key)

text \<open>
  C1. A live photo is exported into the collection folder
  \<open>exportDir/collectionExportName\<close>, as the file exporter calls it. Suppose the journal
  entry of the file's UID (the combined image and video names) has been recorded, the
  image sidecar, the image and the video sidecar can be written, and writing the video
  stream fails. Then the export ends with an error and the journal holds a record with
  no entry for the UID. When deleting the image file works, the error is that of the
  video write and the image file is no longer on disk; when the deletion fails as well,
  its error is the one thrown (and the journal entry is removed all the same).
\<close>

theorem live_photo_video_failure_rolls_back:
  assumes cpath: "collectionExportPath = exportDir @ ''/'' @ collectionExportName"
    and img: "imageExportName = safeFileName w collectionExportPath (imageNameTitle livePhoto)"
    and vid: "videoExportName = safeFileName w collectionExportPath (videoNameTitle livePhoto)"
    and add: "addFileExportedRecord exportDir fileUID
                (getLivePhotoExportName imageExportName videoExportName) w = (Inr (), w1)"
    and f1: "SaveFileToDisk (getFileMetadataExportPath collectionExportPath imageExportName)
               \<notin> set (faults w)"
    and f2: "SaveStreamToDisk (collectionExportPath @ ''/'' @ imageExportName) \<notin> set (faults w)"
    and f3: "SaveFileToDisk (getFileMetadataExportPath collectionExportPath videoExportName)
               \<notin> set (faults w)"
    and f4: "SaveStreamToDisk (collectionExportPath @ ''/'' @ videoExportName) \<in> set (faults w)"
  shows "\<exists>w' e r1 names1 r'.
      exportLivePhoto safeFileName exportDir fileUID collectionExportPath (Inr livePhoto) enteFile w
        = (Inl e, w')
      \<and> journal w1 exportDir = Some r1 \<and> fileExportNames r1 = Some names1
      \<and> map_of names1 fileUID = Some (getLivePhotoExportName imageExportName videoExportName)
      \<and> journal w' exportDir = Some r' \<and> fileUID \<notin> exportedFileUIDs r'
      \<and> (DeleteFile (collectionExportPath @ ''/'' @ imageExportName) \<notin> set (faults w) \<longrightarrow>
            e = PLATFORM_ERROR (SaveStreamToDisk (collectionExportPath @ ''/'' @ videoExportName))
            \<and> map_of (files w') (collectionExportPath @ ''/'' @ imageExportName) = None)
      \<and> (DeleteFile (collectionExportPath @ ''/'' @ imageExportName) \<in> set (faults w) \<longrightarrow>
            e = PLATFORM_ERROR (DeleteFile (collectionExportPath @ ''/'' @ imageExportName)))"
proof -
  let ?imgp = "collectionExportPath @ CHR ''/'' # imageExportName"
  let ?vidp = "collectionExportPath @ CHR ''/'' # videoExportName"
  let ?mi = "getFileMetadataExportPath collectionExportPath imageExportName"
  let ?mv = "getFileMetadataExportPath collectionExportPath videoExportName"
  let ?e = "PLATFORM_ERROR (SaveStreamToDisk ?vidp)"
  let ?d = "PLATFORM_ERROR (DeleteFile ?imgp)"
  from addFileExportedRecord_ok[OF add] obtain r1 names1 where
    j1: "journal w1 exportDir = Some r1" and n1: "fileExportNames r1 = Some names1"
    and m1: "map_of names1 fileUID = Some (getLivePhotoExportName imageExportName videoExportName)"
    and e1: "exportFolderExists w1 exportDir" and fl: "faults w1 = faults w"
    and rd: "ReadTextFile (jpath exportDir) \<notin> set (faults w)"
    and sv: "SaveFileToDisk (jpath exportDir) \<notin> set (faults w)"
    by blast
  have d_img: "?imgp \<noteq> jpath exportDir" and d_mi: "?mi \<noteq> jpath exportDir"
    and d_mv: "?mv \<noteq> jpath exportDir" and d_dir: "?imgp \<noteq> exportDir"
    by (simp_all add: cpath getFileMetadataExportPath_def nested_name_not_journal)
  define w2 where "w2 = w1\<lparr>files := AList.update ?mi
      (SidecarText (getGoogleLikeMetadataFile imageExportName enteFile)) (files w1)\<rparr>"
  define w3 where "w3 = w2\<lparr>files := AList.update ?imgp (StreamData (image livePhoto)) (files w2)\<rparr>"
  define w4 where "w4 = w3\<lparr>files := AList.update ?mv
      (SidecarText (getGoogleLikeMetadataFile videoExportName enteFile)) (files w3)\<rparr>"
  let ?r' = "r1\<lparr>fileExportNames := Some (filter (\<lambda>entry. fst entry \<noteq> fileUID) names1)\<rparr>"
  have fl4: "faults w2 = faults w" "faults w3 = faults w" "faults w4 = faults w"
    by (simp_all add: w2_def w3_def w4_def fl)
  have s1: "saveMetadataFile collectionExportPath imageExportName enteFile w1 = (Inr (), w2)"
    unfolding w2_def by (rule saveMetadataFile_ok) (simp add: fl f1)
  have s2: "saveStreamToDisk ?imgp (image livePhoto) w2 = (Inr (), w3)"
    unfolding w3_def by (rule saveStreamToDisk_ok) (use f2 in \<open>simp add: fl4\<close>)
  have s3: "saveMetadataFile collectionExportPath videoExportName enteFile w3 = (Inr (), w4)"
    unfolding w4_def by (rule saveMetadataFile_ok) (simp add: fl4 f3)
  have s4: "saveStreamToDisk ?vidp (video livePhoto) w4 = (Inl ?e, w4)"
    by (rule saveStreamToDisk_fault) (use f4 in \<open>simp add: fl4\<close>)
  have e2: "exportFolderExists w2 exportDir"
    unfolding w2_def by (rule exportFolderExists_update[OF e1])
  have e3: "exportFolderExists w3 exportDir"
    unfolding w3_def by (rule exportFolderExists_update[OF e2])
  have e4: "exportFolderExists w4 exportDir"
    unfolding w4_def by (rule exportFolderExists_update[OF e3])
  have j2: "journal w2 exportDir = Some r1"
    unfolding w2_def by (simp only: journal_update_other[OF d_mi] j1)
  have j3: "journal w3 exportDir = Some r1"
    unfolding w3_def by (simp only: journal_update_other[OF d_img] j2)
  have j4: "journal w4 exportDir = Some r1"
    unfolding w4_def by (simp only: journal_update_other[OF d_mv] j3)
  have not_in: "fileUID \<notin> exportedFileUIDs ?r'"
    by (auto simp: exportedFileUIDs_def)
  show ?thesis
  proof (cases "DeleteFile ?imgp \<in> set (faults w)")
    case False
    define w5 where "w5 = w4\<lparr>files := filter (\<lambda>entry. fst entry \<noteq> ?imgp) (files w4)\<rparr>"
    define w6 where
      "w6 = w5\<lparr>files := AList.update (jpath exportDir) (RecordText ?r') (files w5)\<rparr>"
    have fl5: "faults w5 = faults w"
      by (simp add: w5_def fl4)
    have s5: "deleteFile ?imgp w4 = (Inr (), w5)"
      unfolding w5_def by (rule deleteFile_ok) (use False in \<open>simp add: fl4\<close>)
    have e5: "exportFolderExists w5 exportDir"
      unfolding w5_def by (rule exportFolderExists_filter[OF e4 d_dir])
    have j5: "journal w5 exportDir = Some r1"
      unfolding w5_def by (simp only: journal_filter_other[OF d_img] j4)
    have s6: "removeFileExportedRecord exportDir fileUID w5 = (Inr (), w6)"
      unfolding w6_def
      by (rule removeFileExportedRecord_valid[OF e5 j5 n1]) (simp_all add: fl5 rd sv)
    have run: "exportLivePhoto safeFileName exportDir fileUID collectionExportPath (Inr livePhoto)
        enteFile w = (Inl ?e, w6)"
      using add
      by (simp add: exportLivePhoto_def Let_def img[symmetric] vid[symmetric] bind_io_def
          catch_io_def s1 s2 s3 s4 s5 s6 throw_def)
    have "map_of (files w6) ?imgp = None"
      using d_img by (simp add: w6_def w5_def update_conv' map_of_filter_key)
    moreover have "journal w6 exportDir = Some ?r'"
      by (simp add: w6_def journal_update_same)
    ultimately show ?thesis
      using run j1 n1 m1 not_in False by auto
  next
    case True
    define w6 where
      "w6 = w4\<lparr>files := AList.update (jpath exportDir) (RecordText ?r') (files w4)\<rparr>"
    have s5: "deleteFile ?imgp w4 = (Inl ?d, w4)"
      using True by (simp add: deleteFile_def fl4)
    have s6: "removeFileExportedRecord exportDir fileUID w4 = (Inr (), w6)"
      unfolding w6_def
      by (rule removeFileExportedRecord_valid[OF e4 j4 n1]) (simp_all add: fl4 rd sv)
    have run: "exportLivePhoto safeFileName exportDir fileUID collectionExportPath (Inr livePhoto)
        enteFile w = (Inl ?d, w6)"
      using add
      by (simp add: exportLivePhoto_def Let_def img[symmetric] vid[symmetric] bind_io_def
          catch_io_def s1 s2 s3 s4 s5 s6 throw_def)
    have "journal w6 exportDir = Some ?r'"
      by (simp add: w6_def journal_update_same)
    then show ?thesis
      using run j1 n1 m1 not_in True by auto
  qed
qed

theorem live_photo_video_failure_rolls_back_witness:
  "\<exists>w' r'.
      exportLivePhoto (\<lambda>w dir n. n) ''/e'' ''5_10_1'' ''/e/A'' (Inr sample_live_photo)
          (sample_file 5 10 1)
          ((sample_world (RecordText sample_record))\<lparr>faults := [SaveStreamToDisk ''/e/A/IMG_1.MOV'']\<rparr>)
        = (Inl (PLATFORM_ERROR (SaveStreamToDisk ''/e/A/IMG_1.MOV'')), w')
      \<and> map_of (files w') ''/e/A/IMG_1.HEIC'' = None
      \<and> journal w' ''/e'' = Some r' \<and> ''5_10_1'' \<notin> exportedFileUIDs r'"
proof -
  let ?w = "(sample_world (RecordText sample_record))\<lparr>faults := [SaveStreamToDisk ''/e/A/IMG_1.MOV'']\<rparr>"
  let ?name = "getLivePhotoExportName ''IMG_1.HEIC'' ''IMG_1.MOV''"
  let ?w1 = "(sample_world (RecordText (sample_record\<lparr>fileExportNames :=
                Some [(''1_10_1'', ''a.jpg''), (''5_10_1'', ?name)]\<rparr>)))
               \<lparr>faults := [SaveStreamToDisk ''/e/A/IMG_1.MOV'']\<rparr>"
  have cpath: "''/e/A'' = ''/e'' @ ''/'' @ ''A''"
    by simp
  have img: "''IMG_1.HEIC'' = (\<lambda>w dir n. n) ?w ''/e/A'' (imageNameTitle sample_live_photo)"
    and vid: "''IMG_1.MOV'' = (\<lambda>w dir n. n) ?w ''/e/A'' (videoNameTitle sample_live_photo)"
    by (simp_all add: sample_live_photo_def)
  have add: "addFileExportedRecord ''/e'' ''5_10_1'' ?name ?w = (Inr (), ?w1)"
    by code_simp
  have f: "faults ?w = [SaveStreamToDisk ''/e/A/IMG_1.MOV'']"
    by simp
  have f1: "SaveFileToDisk (getFileMetadataExportPath ''/e/A'' ''IMG_1.HEIC'') \<notin> set (faults ?w)"
    and f2: "SaveStreamToDisk (''/e/A'' @ ''/'' @ ''IMG_1.HEIC'') \<notin> set (faults ?w)"
    and f3: "SaveFileToDisk (getFileMetadataExportPath ''/e/A'' ''IMG_1.MOV'') \<notin> set (faults ?w)"
    and f4: "SaveStreamToDisk (''/e/A'' @ ''/'' @ ''IMG_1.MOV'') \<in> set (faults ?w)"
    and f5: "DeleteFile (''/e/A'' @ ''/'' @ ''IMG_1.HEIC'') \<notin> set (faults ?w)"
    by (simp_all only: f) simp_all
  from live_photo_video_failure_rolls_back
    [where safeFileName = "\<lambda>w dir n. n" and enteFile = "sample_file 5 10 1",
      OF cpath img vid add f1 f2 f3 f4] f5
  show ?thesis
    by auto
qed

subsection \<open>C6: the trash path\<close>

text \<open>What holds of the trash path: it never names an existing file or directory.\<close>

lemma getTrashedFileExportPath_loop_fresh:
  "\<not> fs_exists w (getTrashedFileExportPath_loop w p count)"
proof (induction w p count rule: getTrashedFileExportPath_loop.induct)
  case (1 w p count)
  then show ?case
    by (subst getTrashedFileExportPath_loop.simps) simp
qed

lemma js_replace_first_at_start:
  "take (length pat) s = pat \<Longrightarrow> js_replace_first pat rep s = rep @ drop (length pat) s"
  by (cases s) auto

lemma js_replace_first_prefix: "js_replace_first pat [] (pat @ rest) = rest"
  by (simp add: js_replace_first_at_start)

text \<open>
  For a path under the export directory whose place in the trash is free, the trash path
  is the relative path under \<open>Trash\<close>.
\<close>

lemma getTrashedFileExportPath_free:
  assumes "\<not> fs_exists w (exportDir @ ''/'' @ exportTrashDirectoryName @ ''/'' @ rel)"
  shows "getTrashedFileExportPath w exportDir (exportDir @ ''/'' @ rel)
           = exportDir @ ''/'' @ exportTrashDirectoryName @ ''/'' @ rel"
proof -
  have "js_replace_first (exportDir @ ''/'') [] (exportDir @ ''/'' @ rel) = rel"
    using js_replace_first_prefix[of "exportDir @ ''/''" rel] by simp
  with assms show ?thesis
    by (simp add: getTrashedFileExportPath_def Let_def getTrashedFileExportPath_loop.simps)
qed

lemma getTrashedFileExportPath_fresh:
  "\<not> fs_exists w (getTrashedFileExportPath w exportDir path)"
  by (simp add: getTrashedFileExportPath_def Let_def getTrashedFileExportPath_loop_fresh)

text \<open>
  C6 names the candidates \<open>stem(k).ext\<close> for \<open>k = 1, 2, ...\<close>. The loop splits the
  path it has already rewritten, so the suffixes pile up: with \<open>a.jpg\<close> and
  \<open>a(1).jpg\<close> in the trash, the path for \<open>a.jpg\<close> is \<open>a(1)(2).jpg\<close> and not
  \<open>a(2).jpg\<close>, which is free.
\<close>

theorem trash_path_second_collision:
  "getTrashedFileExportPath trash_world ''/e'' ''/e/A/a.jpg'' = ''/e/Trash/A/a(1)(2).jpg''
   \<and> \<not> fs_exists trash_world ''/e/Trash/A/a(2).jpg''"
proof -
  have "getTrashedFileExportPath trash_world ''/e'' ''/e/A/a.jpg'' = ''/e/Trash/A/a(1)(2).jpg''"
    by code_simp
  moreover have "\<not> fs_exists trash_world ''/e/Trash/A/a(2).jpg''"
    by (simp add: fs_exists_def trash_world_def)
  ultimately show ?thesis
    by simp
qed

subsection \<open>C2: the scheduler\<close>

lemma scheduleExport_in_progress:
  "exportInProgress s \<noteq> None \<Longrightarrow> scheduleExport s = s\<lparr>reRunNeeded := True\<rparr>"
  by (simp add: scheduleExport_def)

lemma schedule_coalesce:
  "exportInProgress s \<noteq> None \<Longrightarrow> exec (replicate (Suc n) Schedule) s = s\<lparr>reRunNeeded := True\<rparr>"
proof (induction n arbitrary: s)
  case 0
  then show ?case by (simp add: exec_def scheduleExport_def)
next
  case (Suc n)
  have "exec (replicate (Suc (Suc n)) Schedule) s
      = exec (replicate (Suc n) Schedule) (s\<lparr>reRunNeeded := True\<rparr>)"
    using Suc.prems by (simp add: exec_def scheduleExport_def)
  also have "\<dots> = s\<lparr>reRunNeeded := True\<rparr>"
    using Suc.prems Suc.IH[of "s\<lparr>reRunNeeded := True\<rparr>"] by simp
  finally show ?case .
qed

lemma single_flight_step:
  assumes "single_flight s" "e \<noteq> Stop"
  shows "single_flight (step s e)"
proof (cases "runs s")
  case Nil
  with assms show ?thesis
    by (cases e)
      (auto simp: single_flight_def scheduleExport_def export_done_def postExport_done_def
        timer_fires_def Let_def)
next
  case (Cons r rs)
  with assms have rs: "rs = []" and ip: "exportInProgress s = Some (run_id r)" and nc: "\<not> canceled r"
    by (auto simp: single_flight_def split: list.splits)
  with Cons assms show ?thesis
    by (cases e)
      (auto simp: single_flight_def scheduleExport_def export_done_def postExport_done_def
        timer_fires_def Let_def)
qed

lemma single_flight_exec:
  "single_flight s \<Longrightarrow> Stop \<notin> set events \<Longrightarrow> single_flight (exec events s)"
proof (induction events arbitrary: s)
  case Nil
  then show ?case by (simp add: exec_def)
next
  case (Cons e es)
  from Cons.prems have "single_flight (step s e)"
    by (intro single_flight_step) auto
  with Cons show ?case
    by (simp add: exec_def)
qed

lemma single_flight_runs: "single_flight s \<Longrightarrow> length (runs s) \<le> 1"
  by (auto simp: single_flight_def split: list.splits)


lemma postExport_done_rerun:
  assumes "find (\<lambda>r. run_id r = i \<and> phase r = PostExport) (runs s) \<noteq> None" "reRunNeeded s"
  shows "postExport_done i s =
           s\<lparr>exportInProgress := None, runs := filter (\<lambda>r. run_id r \<noteq> i) (runs s),
             reRunNeeded := False, timers := timers s + 1\<rparr>"
  using assms by (auto simp: postExport_done_def Let_def)

text \<open>
  C2, amended. While the slot \<^verbatim>\<open>exportInProgress\<close> is taken, a call of
  \<^verbatim>\<open>scheduleExport\<close> only sets the re-run flag and starts no run, and any number of
  such calls leave the state that one call leaves. When the \<^verbatim>\<open>postExport\<close> of a run
  that was not cancelled returns and the flag is set, the slot and the flag are cleared,
  no run starts at once and exactly one call is deferred; fired with the slot still free,
  it starts exactly one run. As long as \<^verbatim>\<open>stopRunningExport\<close> is not called, at most
  one run is executing at any time.
\<close>

theorem scheduler_single_flight:
  "(exportInProgress s \<noteq> None \<longrightarrow> scheduleExport s = s\<lparr>reRunNeeded := True\<rparr>)
   \<and> (exportInProgress s \<noteq> None \<longrightarrow>
        exec (replicate (Suc n) Schedule) s = s\<lparr>reRunNeeded := True\<rparr>)
   \<and> (find (\<lambda>r. run_id r = i \<and> phase r = PostExport) (runs s) \<noteq> None \<and> reRunNeeded s \<longrightarrow>
        exportInProgress (postExport_done i s) = None
        \<and> \<not> reRunNeeded (postExport_done i s)
        \<and> timers (postExport_done i s) = timers s + 1
        \<and> started (postExport_done i s) = started s
        \<and> exportInProgress (timer_fires (postExport_done i s)) = Some (started s)
        \<and> started (timer_fires (postExport_done i s)) = started s + 1
        \<and> timers (timer_fires (postExport_done i s)) = timers s)
   \<and> (Stop \<notin> set events \<longrightarrow> length (runs (exec events init_scheduler)) \<le> 1)"
proof (intro conjI impI)
  assume "exportInProgress s \<noteq> None"
  then show "scheduleExport s = s\<lparr>reRunNeeded := True\<rparr>"
    by (rule scheduleExport_in_progress)
next
  assume "exportInProgress s \<noteq> None"
  then show "exec (replicate (Suc n) Schedule) s = s\<lparr>reRunNeeded := True\<rparr>"
    by (rule schedule_coalesce)
next
  assume "Stop \<notin> set events"
  moreover have "single_flight init_scheduler"
    by (simp add: single_flight_def init_scheduler_def)
  ultimately show "length (runs (exec events init_scheduler)) \<le> 1"
    by (intro single_flight_runs single_flight_exec)
qed (simp_all add: postExport_done_rerun timer_fires_def scheduleExport_def)

text \<open>
  C2, as stated, fails: \<^verbatim>\<open>stopRunningExport\<close> frees the slot at once, while the
  cancelled run goes on until its next look at the cancellation status. A
  \<^verbatim>\<open>scheduleExport\<close> that arrives in between starts a second run beside it.
\<close>

theorem stop_then_schedule_runs_twice:
  "\<not> length (runs (exec [Schedule, Stop, Schedule] init_scheduler)) \<le> 1"
  by (simp add: exec_def init_scheduler_def scheduleExport_def stopRunningExport_def)

theorem scheduler_single_flight_witness:
  "exportInProgress (exec [Schedule] init_scheduler) \<noteq> None
   \<and> scheduleExport (exec [Schedule] init_scheduler)
       = (exec [Schedule] init_scheduler)\<lparr>reRunNeeded := True\<rparr>
   \<and> exec (replicate 3 Schedule) (exec [Schedule] init_scheduler)
       = (exec [Schedule] init_scheduler)\<lparr>reRunNeeded := True\<rparr>
   \<and> reRunNeeded (exec [Schedule, Schedule, ExportDone 0] init_scheduler)
   \<and> timers (exec [Schedule, Schedule, ExportDone 0, PostExportDone 0] init_scheduler) = 1
   \<and> started (exec [Schedule, Schedule, ExportDone 0, PostExportDone 0, TimerFires] init_scheduler) = 2
   \<and> length (runs (exec [Schedule, Schedule, ExportDone 0, PostExportDone 0, TimerFires]
        init_scheduler)) \<le> 1"
proof -
  let ?s1 = "exec [Schedule] init_scheduler"
  let ?s2 = "exec [Schedule, Schedule, ExportDone 0] init_scheduler"
  have s1: "?s1 = \<lparr>exportInProgress = Some 0, reRunNeeded = False,
                   runs = [\<lparr>run_id = 0, canceled = False, phase = Exporting\<rparr>],
                   timers = 0, started = 1\<rparr>"
    by (simp add: exec_def init_scheduler_def scheduleExport_def)
  have s2: "?s2 = \<lparr>exportInProgress = Some 0, reRunNeeded = True,
                   runs = [\<lparr>run_id = 0, canceled = False, phase = PostExport\<rparr>],
                   timers = 0, started = 1\<rparr>"
    by (simp add: exec_def init_scheduler_def scheduleExport_def export_done_def)
  have h1: "exportInProgress ?s1 \<noteq> None"
    by (simp add: s1)
  have h2: "find (\<lambda>r. run_id r = 0 \<and> phase r = PostExport) (runs ?s2) \<noteq> None \<and> reRunNeeded ?s2"
    by (simp add: s2)
  have h3: "Stop \<notin> set [Schedule, Schedule, ExportDone 0, PostExportDone 0, TimerFires]"
    by simp
  have e4: "exec [Schedule, Schedule, ExportDone 0, PostExportDone 0] init_scheduler
              = postExport_done 0 ?s2"
    and e5: "exec [Schedule, Schedule, ExportDone 0, PostExportDone 0, TimerFires] init_scheduler
              = timer_fires (postExport_done 0 ?s2)"
    by (simp_all add: exec_def)
  have n3: "replicate 3 Schedule = replicate (Suc 2) Schedule"
    by (simp add: numeral_3_eq_3)
  from scheduler_single_flight[of ?s1 2 0
      "[Schedule, Schedule, ExportDone 0, PostExportDone 0, TimerFires]"]
    scheduler_single_flight[of ?s2 0 0 "[]"] h1 h2 h3
  show ?thesis
    unfolding e4 e5 n3 by (simp add: s2 s1)
qed

subsection \<open>C9: what counts as a live photo's export name\<close>

text \<open>The name of a live photo, whatever the two file names are, is accepted.\<close>

lemma json_run_append:
  "json_run st stack (xs @ ys) =
     (case json_run st stack xs of
        None \<Rightarrow> None
      | Some (st', stack') \<Rightarrow> json_run st' stack' ys)"
  by (induction xs arbitrary: st stack) (auto split: option.splits)

lemma hex_digit_letters:
  "hex_digit 10 = CHR ''a''" "hex_digit 11 = CHR ''b''" "hex_digit 12 = CHR ''c''"
  "hex_digit 13 = CHR ''d''" "hex_digit 14 = CHR ''e''" "hex_digit 15 = CHR ''f''"
  by code_simp+

lemma json_hex_hex_digit:
  assumes "d < 16"
  shows "json_hex (hex_digit d)"
proof -
  from assms consider "d < 10" | "d = 10" | "d = 11" | "d = 12" | "d = 13" | "d = 14" | "d = 15"
    by linarith
  then show ?thesis
  proof cases
    case 1
    then show ?thesis
      by (simp add: json_hex_def hex_digit_def is_digit_def)
  qed (simp_all add: json_hex_def hex_digit_letters)
qed

lemma json_run_escape_char:
  "json_run (InString key) stack (json_escape_char c @ rest) = json_run (InString key) stack rest"
proof -
  have h: "json_hex (hex_digit (of_char c div 16))" "json_hex (hex_digit (of_char c mod 16))"
    by (rule json_hex_hex_digit, simp add: less_mult_imp_div_less)+
  have z: "json_hex CHR ''0''"
    by (simp add: json_hex_def is_digit_def)
  show ?thesis
    using h z by (simp add: json_escape_char_def)
qed

lemma json_run_escaped:
  "json_run (InString key) stack (concat (map json_escape_char s) @ rest)
     = json_run (InString key) stack rest"
  by (induction s) (simp_all add: json_run_escape_char)

lemma json_run_string:
  "json_run (InString key) stack (concat (map json_escape_char s) @ CHR 0x22 # rest)
     = json_run (if key then ExpectColon else AfterValue) stack rest"
  by (simp add: json_run_escaped)

lemma json_run_key:
  "json_run ExpectKeyOrEnd stack (json_quote s @ rest) = json_run ExpectColon stack rest"
  "json_run ExpectKey stack (json_quote s @ rest) = json_run ExpectColon stack rest"
  using json_run_string[of True stack s rest]
  by (simp_all add: json_quote_def json_ws_def)

lemma json_run_string_value:
  "json_run ExpectValue stack (json_quote s @ rest) = json_run AfterValue stack rest"
  using json_run_string[of False stack s rest]
  by (simp add: json_quote_def json_ws_def json_value_start_def)

lemma json_accepts_getLivePhotoExportName:
  "json_accepts (getLivePhotoExportName imageExportName videoExportName)"
proof -
  have "json_run ExpectValue [] (getLivePhotoExportName imageExportName videoExportName)
          = Some (AfterValue, [])"
    unfolding getLivePhotoExportName_def
    by (simp add: json_run_key json_run_string_value json_ws_def json_value_start_def
        json_after_value_def)
  then show ?thesis
    by (simp add: json_accepts_def)
qed

text \<open>
  C9. \<^verbatim>\<open>isLivePhotoExportName\<close> holds of a string exactly when \<^verbatim>\<open>JSON.parse\<close>
  accepts it. So it holds of a plain export name that happens to be JSON, such as a
  name made of digits only, fails for an ordinary file name, and holds of every name
  that \<^verbatim>\<open>getLivePhotoExportName\<close> builds.
\<close>

theorem isLivePhotoExportName_iff_parses:
  "isLivePhotoExportName s = json_accepts s
   \<and> isLivePhotoExportName ''20231105''
   \<and> \<not> isLivePhotoExportName ''IMG_0001.JPG''
   \<and> isLivePhotoExportName (getLivePhotoExportName imageExportName videoExportName)"
proof -
  have "isLivePhotoExportName t = json_accepts t" for t
    by (simp add: isLivePhotoExportName_def JSON_parse_def)
  moreover have "json_accepts ''20231105''"
    by code_simp
  moreover have "\<not> json_accepts ''IMG_0001.JPG''"
    by code_simp
  ultimately show ?thesis
    by (simp add: json_accepts_getLivePhotoExportName)
qed

end
